theory Spec2Isabelle
  imports Complex_Main
begin

section \<open>Python values as the program sees them\<close>

text \<open>
  \<^verbatim>\<open>fetch_news.py\<close> handles data of type \<^verbatim>\<open>Any\<close>: whatever \<^verbatim>\<open>response.json()\<close>
  or \<^verbatim>\<open>json.load\<close> produced, or the text of a response. The type \<open>json\<close> is that
  universe. A Python \<^verbatim>\<open>str\<close> is \<open>JStr\<close> whether it came from a JSON string or from
  \<^verbatim>\<open>response.text\<close>; a \<^verbatim>\<open>dict\<close> is an association list in insertion order (looked
  up with \<open>map_of\<close>); \<^verbatim>\<open>None\<close> is \<open>JNull\<close>. Floats are rationals here (NaN and the
  infinities are left out), strings are lists of \<open>char\<close>.
\<close>

datatype json =
    JNull
  | JBool bool
  | JInt int
  | JFloat rat
  | JStr string
  | JList "json list"
  | JDict "(string \<times> json) list"

text \<open>The exceptions of the program, all of them subclasses of \<^verbatim>\<open>Exception\<close>.\<close>

datatype error =
    KeyError
  | TypeError
  | AttributeError
  | FetchFailed
  | RetryError
  | MarkupError

text \<open>Python's truth value, as \<^verbatim>\<open>if not title\<close> tests it.\<close>

fun truthy :: "json \<Rightarrow> bool" where
  "truthy JNull = False"
| "truthy (JBool b) = b"
| "truthy (JInt n) = (n \<noteq> 0)"
| "truthy (JFloat x) = (x \<noteq> 0)"
| "truthy (JStr s) = (s \<noteq> [])"
| "truthy (JList xs) = (xs \<noteq> [])"
| "truthy (JDict kvs) = (kvs \<noteq> [])"

text \<open>\<^verbatim>\<open>sub in s\<close> on two strings: \<open>sub\<close> occurs in \<open>s\<close> as a contiguous block.\<close>

fun is_substring :: "string \<Rightarrow> string \<Rightarrow> bool" where
  "is_substring sub [] = (sub = [])"
| "is_substring sub (c # cs) = (take (length sub) (c # cs) = sub \<or> is_substring sub cs)"

text \<open>
  \<^verbatim>\<open>k in d\<close> for a string \<open>k\<close>: key membership on a dict, element membership on a
  list, substring test on a string, \<^verbatim>\<open>TypeError\<close> on anything else.
\<close>

fun py_contains :: "string \<Rightarrow> json \<Rightarrow> error + bool" where
  "py_contains k (JDict kvs) = Inr (map_of kvs k \<noteq> None)"
| "py_contains k (JList xs) = Inr (JStr k \<in> set xs)"
| "py_contains k (JStr s) = Inr (is_substring k s)"
| "py_contains k JNull = Inl TypeError"
| "py_contains k (JBool b) = Inl TypeError"
| "py_contains k (JInt n) = Inl TypeError"
| "py_contains k (JFloat x) = Inl TypeError"

text \<open>
  \<^verbatim>\<open>d[k]\<close> for a string \<open>k\<close>: \<^verbatim>\<open>KeyError\<close> on a dict without the key,
  \<^verbatim>\<open>TypeError\<close> on every other value (a list or a string wants an integer index,
  the rest is not subscriptable).
\<close>

fun py_getitem :: "json \<Rightarrow> string \<Rightarrow> error + json" where
  "py_getitem (JDict kvs) k = (case map_of kvs k of None \<Rightarrow> Inl KeyError | Some v \<Rightarrow> Inr v)"
| "py_getitem JNull k = Inl TypeError"
| "py_getitem (JBool b) k = Inl TypeError"
| "py_getitem (JInt n) k = Inl TypeError"
| "py_getitem (JFloat x) k = Inl TypeError"
| "py_getitem (JStr s) k = Inl TypeError"
| "py_getitem (JList xs) k = Inl TypeError"

text \<open>\<^verbatim>\<open>d.get(k, default)\<close>: only a dict has the method.\<close>

fun py_get :: "json \<Rightarrow> string \<Rightarrow> json \<Rightarrow> error + json" where
  "py_get (JDict kvs) k d = Inr (case map_of kvs k of None \<Rightarrow> d | Some v \<Rightarrow> v)"
| "py_get JNull k d = Inl AttributeError"
| "py_get (JBool b) k d = Inl AttributeError"
| "py_get (JInt n) k d = Inl AttributeError"
| "py_get (JFloat x) k d = Inl AttributeError"
| "py_get (JStr s) k d = Inl AttributeError"
| "py_get (JList xs) k d = Inl AttributeError"

text \<open>
  \<^verbatim>\<open>for item in v\<close>: the elements of a list, the keys of a dict, the characters of a
  string (each a string of length one); anything else is not iterable.
\<close>

fun py_iter :: "json \<Rightarrow> error + json list" where
  "py_iter (JList xs) = Inr xs"
| "py_iter (JDict kvs) = Inr (map (\<lambda>kv. JStr (fst kv)) kvs)"
| "py_iter (JStr s) = Inr (map (\<lambda>c. JStr [c]) s)"
| "py_iter JNull = Inl TypeError"
| "py_iter (JBool b) = Inl TypeError"
| "py_iter (JInt n) = Inl TypeError"
| "py_iter (JFloat x) = Inl TypeError"

text \<open>\<^verbatim>\<open>d.items()\<close>: only a dict has the method.\<close>

fun py_items :: "json \<Rightarrow> error + (string \<times> json) list" where
  "py_items (JDict kvs) = Inr kvs"
| "py_items JNull = Inl AttributeError"
| "py_items (JBool b) = Inl AttributeError"
| "py_items (JInt n) = Inl AttributeError"
| "py_items (JFloat x) = Inl AttributeError"
| "py_items (JStr s) = Inl AttributeError"
| "py_items (JList xs) = Inl AttributeError"

text \<open>Sequencing of computations that may raise: the first exception wins.\<close>

definition ebind :: "error + 'a \<Rightarrow> ('a \<Rightarrow> error + 'b) \<Rightarrow> error + 'b" where
  "ebind x f = (case x of Inl e \<Rightarrow> Inl e | Inr v \<Rightarrow> f v)"

section \<open>The outside world: network and clock\<close>

text \<open>
  The program reads two things it does not control: the answers of the network and the
  clock. Both are oracles of the environment, indexed by how many times they have been
  asked; the state \<open>world\<close> records the requests sent (\<open>http_log\<close>, one entry per
  \<^verbatim>\<open>requests.get\<close>), the calls of the Transport function \<^verbatim>\<open>fetch\<close>
  (\<open>transport_calls\<close>) and the readings of \<^verbatim>\<open>datetime.now()\<close> (\<open>clock_reads\<close>).
  An exception does not undo them, so every effectful function returns its result
  together with the world it leaves.
\<close>

record response =
  status_code :: nat
  json_body :: "json option"
  body_text :: string

datatype http_outcome = ConnectionFault | Response response

record tag =
  tag_strings :: "string list"
  tag_attrs :: "(string \<times> string) list"

record world =
  http_log :: "(json \<times> json) list"
  transport_calls :: nat
  clock_reads :: nat

text \<open>
  The environment. \<open>net i url params\<close> is what the \<open>i\<close>-th \<^verbatim>\<open>requests.get\<close> of the
  run meets; \<open>json_body\<close> of a response is what \<^verbatim>\<open>response.json()\<close> returns (\<open>None\<close>
  when it raises). \<open>clock i\<close> is the \<open>i\<close>-th reading of the clock, in microseconds
  since the epoch. The remaining fields stand for library calls whose code is not part
  of the repository:
  \<^item> \<open>str_of v\<close> is \<^verbatim>\<open>str(v)\<close>, as an f-string formats a value;
  \<^item> \<open>soup_text v\<close> is \<^verbatim>\<open>BeautifulSoup(v, "lxml").get_text(separator=" ", strip=True)\<close>;
  \<^item> \<open>hupu_posts v\<close> is \<^verbatim>\<open>BeautifulSoup(v, "lxml").select("li.bbs-sl-web-post-body")\<close>,
    each node given as its \<^verbatim>\<open>select_one("a.p-title")\<close> (\<open>None\<close> when there is none);
  \<^item> \<open>hn_rows v\<close> is \<^verbatim>\<open>select("tr.athing")\<close> with each row's
    \<^verbatim>\<open>select_one("td.title span.titleline a")\<close>;
  \<^item> \<open>ph_posts v\<close> is \<^verbatim>\<open>select("[data-test^='post-item']")\<close> with each post's
    \<^verbatim>\<open>post-name\<close> element and its \<^verbatim>\<open>select_one("a[href^='/posts/']")\<close>;
  \<^item> \<open>github_articles v\<close> is \<^verbatim>\<open>select("main .Box div[data-hpc] > article")\<close> with
    each article's \<^verbatim>\<open>select_one("h2 a")\<close>.
  A selected element is a \<open>tag\<close>: its text nodes in document order and its attributes.
\<close>

record env =
  net :: "nat \<Rightarrow> json \<Rightarrow> json \<Rightarrow> http_outcome"
  clock :: "nat \<Rightarrow> int"
  str_of :: "json \<Rightarrow> string"
  soup_text :: "json \<Rightarrow> error + string"
  hupu_posts :: "json \<Rightarrow> error + tag option list"
  hn_rows :: "json \<Rightarrow> error + tag option list"
  ph_posts :: "json \<Rightarrow> error + (tag option \<times> tag option) list"
  github_articles :: "json \<Rightarrow> error + tag option list"

text \<open>\<^verbatim>\<open>datetime.now()\<close>: the next reading of the clock.\<close>

definition now :: "env \<Rightarrow> world \<Rightarrow> int \<times> world" where
  "now e w = (clock e (clock_reads w), w\<lparr>clock_reads := Suc (clock_reads w)\<rparr>)"

section \<open>Transport\<close>

text \<open>
  \<^verbatim>\<open>requests.get(url, headers=HEADERS, params=params, timeout=TIMEOUT)\<close>: one request,
  logged, answered by the environment.
\<close>

definition http_get :: "env \<Rightarrow> json \<Rightarrow> json \<Rightarrow> world \<Rightarrow> http_outcome \<times> world" where
  "http_get e url params w =
     (net e (length (http_log w)) url params, w\<lparr>http_log := http_log w @ [(url, params)]\<rparr>)"

text \<open>\<^verbatim>\<open>response.raise_for_status()\<close> raises on a 4xx or 5xx status.\<close>

definition is_error_status :: "nat \<Rightarrow> bool" where
  "is_error_status s = (400 \<le> s \<and> s < 600)"

text \<open>
  The body of \<^verbatim>\<open>fetch\<close>, one attempt: a fault of the request or an error status is
  re-raised as \<^verbatim>\<open>Exception("Failed to fetch ...")\<close>; otherwise the parsed JSON, or the
  text when parsing raises.
\<close>

definition fetch_attempt :: "env \<Rightarrow> json \<Rightarrow> json \<Rightarrow> world \<Rightarrow> (error + json) \<times> world" where
  "fetch_attempt e url params w =
     (case http_get e url params w of
        (ConnectionFault, w1) \<Rightarrow> (Inl FetchFailed, w1)
      | (Response r, w1) \<Rightarrow>
          if is_error_status (status_code r) then (Inl FetchFailed, w1)
          else (case json_body r of
                  Some j \<Rightarrow> (Inr j, w1)
                | None \<Rightarrow> (Inr (JStr (body_text r)), w1)))"

text \<open>
  \<^verbatim>\<open>@retry(stop=stop_after_attempt(n), ...)\<close>: the call is repeated while it raises;
  when the \<open>n\<close>-th attempt has raised too, tenacity raises \<^verbatim>\<open>RetryError\<close>. The waits
  between attempts take time and nothing else, and are left out.
\<close>

fun retry :: "nat \<Rightarrow> (world \<Rightarrow> (error + 'a) \<times> world) \<Rightarrow> world \<Rightarrow> (error + 'a) \<times> world" where
  "retry 0 f w = (Inl RetryError, w)"
| "retry (Suc n) f w =
     (case f w of
        (Inr v, w1) \<Rightarrow> (Inr v, w1)
      | (Inl e, w1) \<Rightarrow> retry n f w1)"

text \<open>The decorated \<^verbatim>\<open>fetch(url, params)\<close>: one Transport call, at most three requests.\<close>

definition fetch :: "env \<Rightarrow> json \<Rightarrow> json \<Rightarrow> world \<Rightarrow> (error + json) \<times> world" where
  "fetch e url params w =
     retry 3 (fetch_attempt e url params) (w\<lparr>transport_calls := Suc (transport_calls w)\<rparr>)"

text \<open>An attempt of the underlying call fails: the request faults or its status is an error.\<close>

fun attempt_fails :: "http_outcome \<Rightarrow> bool" where
  "attempt_fails ConnectionFault = True"
| "attempt_fails (Response r) = is_error_status (status_code r)"

text \<open>What a successful attempt returns: the parsed JSON, or the raw text.\<close>

definition response_value :: "response \<Rightarrow> json" where
  "response_value r = (case json_body r of Some j \<Rightarrow> j | None \<Rightarrow> JStr (body_text r))"


section \<open>Text Sanitizer\<close>

text \<open>
  Whitespace as \<^verbatim>\<open>\s\<close> and \<^verbatim>\<open>str.strip()\<close> see it, among the characters of the
  type \<open>char\<close> (the code points below 256): tab, line feed, vertical tab, form feed,
  carriage return, the four separators \<^verbatim>\<open>\x1c\<close> to \<^verbatim>\<open>\x1f\<close>, the space, the next-line
  control \<^verbatim>\<open>\x85\<close> and the no-break space \<^verbatim>\<open>\xa0\<close>.
\<close>

definition is_space :: "char \<Rightarrow> bool" where
  "is_space c =
     (c \<in> set [CHR 0x09, CHR 0x0A, CHR 0x0B, CHR 0x0C, CHR 0x0D,
                CHR 0x1C, CHR 0x1D, CHR 0x1E, CHR 0x1F, CHR 0x20, CHR 0x85, CHR 0xA0])"

text \<open>\<^verbatim>\<open>re.sub(r'\s+', ' ', text)\<close>: every maximal run of whitespace becomes one space.\<close>

function re_sub_ws :: "string \<Rightarrow> string" where
  "re_sub_ws [] = []"
| "re_sub_ws (c # cs) =
     (if is_space c then CHR 0x20 # re_sub_ws (dropWhile is_space cs)
      else c # re_sub_ws cs)"
  by pat_completeness auto
termination
  by (relation "measure length") (auto simp: length_dropWhile_le less_Suc_eq_le)

text \<open>\<^verbatim>\<open>text.strip()\<close>: whitespace removed at both ends.\<close>

definition py_strip :: "string \<Rightarrow> string" where
  "py_strip s = rev (dropWhile is_space (rev (dropWhile is_space s)))"

text \<open>
  \<^verbatim>\<open>strip_html(text)\<close>. The parser is the environment's \<open>soup_text\<close>; everything
  around it is the function's own code.
\<close>

definition strip_html :: "env \<Rightarrow> json \<Rightarrow> error + string" where
  "strip_html e v =
     (if \<not> truthy v then Inr []
      else ebind (soup_text e v) (\<lambda>t. Inr (py_strip (re_sub_ws t))))"

section \<open>Items and sources\<close>

record news_item =
  title :: json
  url :: json
  platform :: string
  platform_icon :: json
  raw_category :: json
  content :: json
  timestamp :: "int option"

datatype source_class =
    ZhihuSource
  | WallStreetCNSource
  | HupuSource
  | ThePaperSource
  | HackerNewsSource
  | ProductHuntSource
  | GitHubSource
  | SspaiSource

text \<open>
  A source object: the attributes \<^verbatim>\<open>NewsSource.__init__\<close> sets, the class of the
  object, and the attributes the subclasses add. An attribute a class does not set is
  \<open>JNull\<close> here and is never read by that class.
\<close>

record news_source =
  src_class :: source_class
  src_platform :: string
  src_name :: json
  src_icon :: json
  src_type :: json
  src_category :: json
  src_enabled :: json
  src_url :: json
  src_endpoints :: json
  src_params :: json

text \<open>\<^verbatim>\<open>NewsSource.__init__(platform, config)\<close>.\<close>

definition base_init :: "source_class \<Rightarrow> string \<Rightarrow> json \<Rightarrow> error + news_source" where
  "base_init cls pf config =
     ebind (py_getitem config ''name'') (\<lambda>nm.
     ebind (py_getitem config ''icon'') (\<lambda>ic.
     ebind (py_getitem config ''type'') (\<lambda>tp.
     ebind (py_getitem config ''category'') (\<lambda>cat.
     ebind (py_get config ''enabled'' (JBool True)) (\<lambda>en.
       Inr \<lparr>src_class = cls, src_platform = pf, src_name = nm, src_icon = ic,
            src_type = tp, src_category = cat, src_enabled = en,
            src_url = JNull, src_endpoints = JNull, src_params = JNull\<rparr>)))))"

text \<open>The constructors of the eight subclasses, by class.\<close>

definition with_url :: "json \<Rightarrow> news_source \<Rightarrow> error + news_source" where
  "with_url config s = ebind (py_getitem config ''url'') (\<lambda>u. Inr (s\<lparr>src_url := u\<rparr>))"

fun new_source :: "source_class \<Rightarrow> json \<Rightarrow> error + news_source" where
  "new_source ZhihuSource config =
     ebind (base_init ZhihuSource ''zhihu'' config) (with_url config)"
| "new_source WallStreetCNSource config =
     ebind (base_init WallStreetCNSource ''wallstreetcn'' config) (\<lambda>s.
     ebind (py_getitem config ''endpoints'') (\<lambda>eps. Inr (s\<lparr>src_endpoints := eps\<rparr>)))"
| "new_source HupuSource config =
     ebind (base_init HupuSource ''hupu'' config) (with_url config)"
| "new_source ThePaperSource config =
     ebind (base_init ThePaperSource ''thepaper'' config) (with_url config)"
| "new_source HackerNewsSource config =
     ebind (base_init HackerNewsSource ''hackernews'' config) (with_url config)"
| "new_source ProductHuntSource config =
     ebind (base_init ProductHuntSource ''producthunt'' config) (with_url config)"
| "new_source GitHubSource config =
     ebind (base_init GitHubSource ''github'' config) (with_url config)"
| "new_source SspaiSource config =
     ebind (base_init SspaiSource ''sspai'' config) (\<lambda>s.
     ebind (with_url config s) (\<lambda>s1.
     ebind (py_get config ''params'' (JDict [])) (\<lambda>ps. Inr (s1\<lparr>src_params := ps\<rparr>))))"

text \<open>
  \<^verbatim>\<open>NewsItem(title=..., url=..., platform=self.platform, platform_icon=self.icon,
  raw_category=self.category, content=..., timestamp=datetime.now())\<close>, given the
  reading of the clock.
\<close>

definition make_item :: "news_source \<Rightarrow> json \<Rightarrow> json \<Rightarrow> json \<Rightarrow> int \<Rightarrow> news_item" where
  "make_item src t u c ts =
     \<lparr>title = t, url = u, platform = src_platform src, platform_icon = src_icon src,
      raw_category = src_category src, content = c, timestamp = Some ts\<rparr>"

text \<open>
  Every extraction loop of the program has one shape: for each record, compute the
  fields (which may raise, and then the whole loop raises), \<^verbatim>\<open>continue\<close> when there is no
  title, otherwise read the clock and append the item. \<open>collect f\<close> is that loop for the
  per-record code \<open>f\<close>, which returns \<open>None\<close> for \<^verbatim>\<open>continue\<close> and the triple
  (title, url, content) otherwise.
\<close>

type_synonym fields = "json \<times> json \<times> json"

fun collect ::
  "('r \<Rightarrow> error + fields option) \<Rightarrow> env \<Rightarrow> news_source \<Rightarrow> 'r list \<Rightarrow> world
    \<Rightarrow> (error + news_item list) \<times> world" where
  "collect f e src [] w = (Inr [], w)"
| "collect f e src (r # rs) w =
     (case f r of
        Inl er \<Rightarrow> (Inl er, w)
      | Inr None \<Rightarrow> collect f e src rs w
      | Inr (Some (t, u, c)) \<Rightarrow>
          (case now e w of
             (ts, w1) \<Rightarrow>
               (case collect f e src rs w1 of
                  (Inl er, w2) \<Rightarrow> (Inl er, w2)
                | (Inr its, w2) \<Rightarrow> (Inr (make_item src t u c ts # its), w2))))"

subsection \<open>Zhihu\<close>

definition zhihu_record :: "json \<Rightarrow> error + fields option" where
  "zhihu_record item =
     ebind (py_get item ''target'' (JDict [])) (\<lambda>target.
     ebind (py_get target ''title_area'' (JDict [])) (\<lambda>ta.
     ebind (py_get ta ''text'' (JStr [])) (\<lambda>t.
       if \<not> truthy t then Inr None
       else
         ebind (py_get target ''url'' (JStr [])) (\<lambda>u.
         ebind (py_get target ''excerpt_area'' (JDict [])) (\<lambda>ea.
         ebind (py_get ea ''text'' (JStr [])) (\<lambda>c. Inr (Some (t, u, c))))))))"

text \<open>\<^verbatim>\<open>ZhihuSource._fetch_api\<close> after \<^verbatim>\<open>data = fetch(self.url)\<close>.\<close>

definition zhihu_parse ::
  "env \<Rightarrow> news_source \<Rightarrow> json \<Rightarrow> world \<Rightarrow> (error + news_item list) \<times> world" where
  "zhihu_parse e src data w =
     (case py_contains ''data'' data of
        Inl er \<Rightarrow> (Inl er, w)
      | Inr False \<Rightarrow> (Inr [], w)
      | Inr True \<Rightarrow>
          (case ebind (py_getitem data ''data'') py_iter of
             Inl er \<Rightarrow> (Inl er, w)
           | Inr rs \<Rightarrow> collect zhihu_record e src rs w))"

definition zhihu_fetch_api ::
  "env \<Rightarrow> news_source \<Rightarrow> world \<Rightarrow> (error + news_item list) \<times> world" where
  "zhihu_fetch_api e src w =
     (case fetch e (src_url src) JNull w of
        (Inl er, w1) \<Rightarrow> (Inl er, w1)
      | (Inr data, w1) \<Rightarrow> zhihu_parse e src data w1)"

subsection \<open>WallStreetCN\<close>

definition live_record :: "env \<Rightarrow> json \<Rightarrow> error + fields option" where
  "live_record e item =
     ebind (py_get item ''content'' (JStr [])) (\<lambda>c.
       if \<not> truthy c then Inr None
       else
         ebind (strip_html e c) (\<lambda>s.
           if s = [] then Inr None else Inr (Some (JStr s, JStr [], JStr []))))"

definition article_record :: "json \<Rightarrow> error + fields option" where
  "article_record item =
     ebind (py_get item ''article'' JNull) (\<lambda>article.
       if \<not> truthy article then Inr None
       else
         ebind (py_get article ''title'' (JStr [])) (\<lambda>t.
           if \<not> truthy t then Inr None
           else ebind (py_get article ''uri'' (JStr [])) (\<lambda>u. Inr (Some (t, u, JStr [])))))"

text \<open>\<^verbatim>\<open>WallStreetCNSource._parse_endpoint(endpoint_key, data)\<close>.\<close>

definition parse_endpoint ::
  "env \<Rightarrow> news_source \<Rightarrow> string \<Rightarrow> json \<Rightarrow> world \<Rightarrow> (error + news_item list) \<times> world" where
  "parse_endpoint e src endpoint_key data w =
     (case py_contains ''data'' data of
        Inl er \<Rightarrow> (Inl er, w)
      | Inr False \<Rightarrow> (Inr [], w)
      | Inr True \<Rightarrow>
          (case py_getitem data ''data'' of
             Inl er \<Rightarrow> (Inl er, w)
           | Inr d \<Rightarrow>
               (case py_contains ''items'' d of
                  Inl er \<Rightarrow> (Inl er, w)
                | Inr False \<Rightarrow> (Inr [], w)
                | Inr True \<Rightarrow>
                    if endpoint_key = ''live'' then
                      (case ebind (py_getitem d ''items'') py_iter of
                         Inl er \<Rightarrow> (Inl er, w)
                       | Inr rs \<Rightarrow> collect (live_record e) e src rs w)
                    else if endpoint_key = ''news'' then
                      (case ebind (py_getitem d ''items'') py_iter of
                         Inl er \<Rightarrow> (Inl er, w)
                       | Inr rs \<Rightarrow> collect article_record e src rs w)
                    else if endpoint_key = ''hot'' then
                      (case ebind (py_getitem d ''items'') py_iter of
                         Inl er \<Rightarrow> (Inl er, w)
                       | Inr rs \<Rightarrow> collect article_record e src rs w)
                    else (Inr [], w))))"

text \<open>
  One turn of the loop of \<^verbatim>\<open>WallStreetCNSource._fetch_api\<close>, inside its \<^verbatim>\<open>try\<close>:
  the Transport call and the parsing of its answer.
\<close>

definition endpoint_items ::
  "env \<Rightarrow> news_source \<Rightarrow> string \<Rightarrow> json \<Rightarrow> json \<Rightarrow> world \<Rightarrow> (error + news_item list) \<times> world" where
  "endpoint_items e src endpoint_key u params w =
     (case fetch e u params w of
        (Inl er, w1) \<Rightarrow> (Inl er, w1)
      | (Inr data, w1) \<Rightarrow> parse_endpoint e src endpoint_key data w1)"

text \<open>
  The loop over \<^verbatim>\<open>self.endpoints.items()\<close>. The two lookups in the endpoint's
  configuration stand before the \<^verbatim>\<open>try\<close>; what the \<^verbatim>\<open>try\<close> encloses is caught, and the
  loop goes on with the next endpoint.
\<close>

fun endpoints_loop ::
  "env \<Rightarrow> news_source \<Rightarrow> (string \<times> json) list \<Rightarrow> world \<Rightarrow> (error + news_item list) \<times> world" where
  "endpoints_loop e src [] w = (Inr [], w)"
| "endpoints_loop e src ((endpoint_key, endpoint_config) # eps) w =
     (case py_getitem endpoint_config ''url'' of
        Inl er \<Rightarrow> (Inl er, w)
      | Inr u \<Rightarrow>
          (case py_get endpoint_config ''params'' (JDict []) of
             Inl er \<Rightarrow> (Inl er, w)
           | Inr params \<Rightarrow>
               (case endpoint_items e src endpoint_key u params w of
                  (Inl er, w1) \<Rightarrow> endpoints_loop e src eps w1
                | (Inr its, w1) \<Rightarrow>
                    (case endpoints_loop e src eps w1 of
                       (Inl er, w2) \<Rightarrow> (Inl er, w2)
                     | (Inr rest, w2) \<Rightarrow> (Inr (its @ rest), w2)))))"

definition wallstreetcn_fetch_api ::
  "env \<Rightarrow> news_source \<Rightarrow> world \<Rightarrow> (error + news_item list) \<times> world" where
  "wallstreetcn_fetch_api e src w =
     (case py_items (src_endpoints src) of
        Inl er \<Rightarrow> (Inl er, w)
      | Inr eps \<Rightarrow> endpoints_loop e src eps w)"


subsection \<open>ThePaper\<close>

definition thepaper_record :: "env \<Rightarrow> json \<Rightarrow> error + fields option" where
  "thepaper_record e item =
     ebind (py_get item ''name'' (JStr [])) (\<lambda>t.
       if \<not> truthy t then Inr None
       else
         ebind (py_get item ''contId'' (JStr [])) (\<lambda>cont_id.
           Inr (Some (t,
                      if truthy cont_id
                      then JStr (''https://www.thepaper.cn/newsDetail_forward_'' @ str_of e cont_id)
                      else JStr [],
                      JStr []))))"

text \<open>\<^verbatim>\<open>ThePaperSource._fetch_api\<close> after \<^verbatim>\<open>data = fetch(self.url)\<close>.\<close>

definition thepaper_parse ::
  "env \<Rightarrow> news_source \<Rightarrow> json \<Rightarrow> world \<Rightarrow> (error + news_item list) \<times> world" where
  "thepaper_parse e src data w =
     (case py_contains ''data'' data of
        Inl er \<Rightarrow> (Inl er, w)
      | Inr False \<Rightarrow> (Inr [], w)
      | Inr True \<Rightarrow>
          (case ebind (py_getitem data ''data'') (\<lambda>d. ebind (py_getitem d ''hotNews'') py_iter) of
             Inl er \<Rightarrow> (Inl er, w)
           | Inr rs \<Rightarrow> collect (thepaper_record e) e src rs w))"

definition thepaper_fetch_api ::
  "env \<Rightarrow> news_source \<Rightarrow> world \<Rightarrow> (error + news_item list) \<times> world" where
  "thepaper_fetch_api e src w =
     (case fetch e (src_url src) JNull w of
        (Inl er, w1) \<Rightarrow> (Inl er, w1)
      | (Inr data, w1) \<Rightarrow> thepaper_parse e src data w1)"

subsection \<open>Sspai\<close>

definition sspai_record :: "json \<Rightarrow> error + fields option" where
  "sspai_record item =
     ebind (py_get item ''title'' (JStr [])) (\<lambda>t.
       if \<not> truthy t then Inr None
       else
         ebind (py_get item ''id'' (JStr [])) (\<lambda>u.
         ebind (py_get item ''summary'' (JStr [])) (\<lambda>c. Inr (Some (t, u, c)))))"

text \<open>\<^verbatim>\<open>SspaiSource._fetch_api\<close> after \<^verbatim>\<open>data = fetch(self.url, params)\<close>.\<close>

definition sspai_parse ::
  "env \<Rightarrow> news_source \<Rightarrow> json \<Rightarrow> world \<Rightarrow> (error + news_item list) \<times> world" where
  "sspai_parse e src data w =
     (case py_contains ''data'' data of
        Inl er \<Rightarrow> (Inl er, w)
      | Inr False \<Rightarrow> (Inr [], w)
      | Inr True \<Rightarrow>
          (case ebind (py_getitem data ''data'') py_iter of
             Inl er \<Rightarrow> (Inl er, w)
           | Inr rs \<Rightarrow> collect sspai_record e src rs w))"

text \<open>\<^verbatim>\<open>params.copy()\<close>: dicts and lists have the method.\<close>

fun py_copy :: "json \<Rightarrow> error + json" where
  "py_copy (JDict kvs) = Inr (JDict kvs)"
| "py_copy (JList xs) = Inr (JList xs)"
| "py_copy JNull = Inl AttributeError"
| "py_copy (JBool b) = Inl AttributeError"
| "py_copy (JInt n) = Inl AttributeError"
| "py_copy (JFloat x) = Inl AttributeError"
| "py_copy (JStr s) = Inl AttributeError"

text \<open>
  \<^verbatim>\<open>d[k] = v\<close> for a string \<open>k\<close>: an existing key keeps its place, a new one goes
  last; a value that is not a dict raises \<^verbatim>\<open>TypeError\<close>.
\<close>

fun dict_set :: "string \<Rightarrow> json \<Rightarrow> (string \<times> json) list \<Rightarrow> (string \<times> json) list" where
  "dict_set k v [] = [(k, v)]"
| "dict_set k v (kv # kvs) = (if fst kv = k then (k, v) # kvs else kv # dict_set k v kvs)"

fun py_setitem :: "json \<Rightarrow> string \<Rightarrow> json \<Rightarrow> error + json" where
  "py_setitem (JDict kvs) k v = Inr (JDict (dict_set k v kvs))"
| "py_setitem (JList xs) k v = Inl TypeError"
| "py_setitem JNull k v = Inl TypeError"
| "py_setitem (JBool b) k v = Inl TypeError"
| "py_setitem (JInt n) k v = Inl TypeError"
| "py_setitem (JFloat x) k v = Inl TypeError"
| "py_setitem (JStr s) k v = Inl TypeError"

text \<open>
  \<^verbatim>\<open>int(datetime.now().timestamp())\<close> is the reading of the clock in whole seconds;
  \<^verbatim>\<open>int\<close> rounds toward zero.
\<close>

definition whole_seconds :: "int \<Rightarrow> int" where
  "whole_seconds us = (if us < 0 then - ((- us) div 1000000) else us div 1000000)"

definition sspai_fetch_api ::
  "env \<Rightarrow> news_source \<Rightarrow> world \<Rightarrow> (error + news_item list) \<times> world" where
  "sspai_fetch_api e src w =
     (case py_copy (src_params src) of
        Inl er \<Rightarrow> (Inl er, w)
      | Inr params \<Rightarrow>
          (case now e w of
             (ts, w1) \<Rightarrow>
               (case py_setitem params ''created_at'' (JInt (whole_seconds ts)) of
                  Inl er \<Rightarrow> (Inl er, w1)
                | Inr params1 \<Rightarrow>
                    (case fetch e (src_url src) params1 w1 of
                       (Inl er, w2) \<Rightarrow> (Inl er, w2)
                     | (Inr data, w2) \<Rightarrow> sspai_parse e src data w2))))"

subsection \<open>The HTML sources\<close>

text \<open>
  \<^verbatim>\<open>tag.get_text(strip=True)\<close>: the text nodes, each stripped, the empty ones dropped,
  joined with nothing between them. \<^verbatim>\<open>tag.get(name, "")\<close>: the attribute or the
  default. \<^verbatim>\<open>s.startswith(p)\<close>.
\<close>

definition tag_text :: "tag \<Rightarrow> string" where
  "tag_text t = concat (filter (\<lambda>s. s \<noteq> []) (map py_strip (tag_strings t)))"

definition tag_get :: "tag \<Rightarrow> string \<Rightarrow> string \<Rightarrow> string" where
  "tag_get t k d = (case map_of (tag_attrs t) k of None \<Rightarrow> d | Some v \<Rightarrow> v)"

definition startswith :: "string \<Rightarrow> string \<Rightarrow> bool" where
  "startswith s p = (take (length p) s = p)"

definition hupu_record :: "tag option \<Rightarrow> error + fields option" where
  "hupu_record a_tag =
     (case a_tag of
        None \<Rightarrow> Inr None
      | Some a \<Rightarrow>
          if tag_text a = [] then Inr None
          else
            (let href = tag_get a ''href'' [] in
             Inr (Some (JStr (tag_text a),
                        JStr (if href \<noteq> [] \<and> \<not> startswith href ''http''
                              then ''https://bbs.hupu.com'' @ href else href),
                        JStr []))))"

definition hupu_fetch_html ::
  "env \<Rightarrow> news_source \<Rightarrow> world \<Rightarrow> (error + news_item list) \<times> world" where
  "hupu_fetch_html e src w =
     (case fetch e (src_url src) JNull w of
        (Inl er, w1) \<Rightarrow> (Inl er, w1)
      | (Inr html, w1) \<Rightarrow>
          (case hupu_posts e html of
             Inl er \<Rightarrow> (Inl er, w1)
           | Inr nodes \<Rightarrow> collect hupu_record e src nodes w1))"

definition hackernews_record :: "tag option \<Rightarrow> error + fields option" where
  "hackernews_record title_cell =
     (case title_cell of
        None \<Rightarrow> Inr None
      | Some a \<Rightarrow>
          if tag_text a = [] then Inr None
          else Inr (Some (JStr (tag_text a), JStr (tag_get a ''href'' []), JStr [])))"

definition hackernews_fetch_html ::
  "env \<Rightarrow> news_source \<Rightarrow> world \<Rightarrow> (error + news_item list) \<times> world" where
  "hackernews_fetch_html e src w =
     (case fetch e (src_url src) JNull w of
        (Inl er, w1) \<Rightarrow> (Inl er, w1)
      | (Inr html, w1) \<Rightarrow>
          (case hn_rows e html of
             Inl er \<Rightarrow> (Inl er, w1)
           | Inr nodes \<Rightarrow> collect hackernews_record e src nodes w1))"

definition producthunt_record :: "tag option \<times> tag option \<Rightarrow> error + fields option" where
  "producthunt_record post =
     (case fst post of
        None \<Rightarrow> Inr None
      | Some title_elem \<Rightarrow>
          if tag_text title_elem = [] then Inr None
          else Inr (Some (JStr (tag_text title_elem),
                          (case snd post of
                             Some link_elem \<Rightarrow>
                               JStr (''https://www.producthunt.com'' @ tag_get link_elem ''href'' [])
                           | None \<Rightarrow> JStr []),
                          JStr [])))"

definition producthunt_fetch_html ::
  "env \<Rightarrow> news_source \<Rightarrow> world \<Rightarrow> (error + news_item list) \<times> world" where
  "producthunt_fetch_html e src w =
     (case fetch e (src_url src) JNull w of
        (Inl er, w1) \<Rightarrow> (Inl er, w1)
      | (Inr html, w1) \<Rightarrow>
          (case ph_posts e html of
             Inl er \<Rightarrow> (Inl er, w1)
           | Inr nodes \<Rightarrow> collect producthunt_record e src nodes w1))"

text \<open>
  GitHub's title is \<^verbatim>\<open>a_tag.get_text(strip=True).replace("\n", "").strip()\<close>.
\<close>

definition github_title :: "tag \<Rightarrow> string" where
  "github_title a = py_strip (filter (\<lambda>c. c \<noteq> CHR 0x0A) (tag_text a))"

definition github_record :: "tag option \<Rightarrow> error + fields option" where
  "github_record a_tag =
     (case a_tag of
        None \<Rightarrow> Inr None
      | Some a \<Rightarrow>
          if github_title a = [] then Inr None
          else
            (let href = tag_get a ''href'' [] in
             Inr (Some (JStr (github_title a),
                        JStr (if href \<noteq> [] \<and> \<not> startswith href ''http''
                              then ''https://github.com'' @ href else href),
                        JStr []))))"

definition github_fetch_html ::
  "env \<Rightarrow> news_source \<Rightarrow> world \<Rightarrow> (error + news_item list) \<times> world" where
  "github_fetch_html e src w =
     (case fetch e (src_url src) JNull w of
        (Inl er, w1) \<Rightarrow> (Inl er, w1)
      | (Inr html, w1) \<Rightarrow>
          (case github_articles e html of
             Inl er \<Rightarrow> (Inl er, w1)
           | Inr nodes \<Rightarrow> collect github_record e src nodes w1))"

subsection \<open>\<^verbatim>\<open>NewsSource.fetch\<close>\<close>

text \<open>
  What a method returns: a list of items, or \<^verbatim>\<open>None\<close> where the class inherits the
  base method, whose body is \<^verbatim>\<open>pass\<close>. \<open>returned\<close> wraps the result of a method that
  returns a list.
\<close>

definition returned ::
  "(error + news_item list) \<times> world \<Rightarrow> (error + news_item list option) \<times> world" where
  "returned r = (case r of (Inl er, w) \<Rightarrow> (Inl er, w) | (Inr its, w) \<Rightarrow> (Inr (Some its), w))"

text \<open>\<^verbatim>\<open>self._fetch_api()\<close> and \<^verbatim>\<open>self._fetch_html()\<close>, resolved on the object's class.\<close>

fun fetch_api :: "env \<Rightarrow> news_source \<Rightarrow> source_class \<Rightarrow> world
    \<Rightarrow> (error + news_item list option) \<times> world" where
  "fetch_api e src ZhihuSource w = returned (zhihu_fetch_api e src w)"
| "fetch_api e src WallStreetCNSource w = returned (wallstreetcn_fetch_api e src w)"
| "fetch_api e src ThePaperSource w = returned (thepaper_fetch_api e src w)"
| "fetch_api e src SspaiSource w = returned (sspai_fetch_api e src w)"
| "fetch_api e src HupuSource w = (Inr None, w)"
| "fetch_api e src HackerNewsSource w = (Inr None, w)"
| "fetch_api e src ProductHuntSource w = (Inr None, w)"
| "fetch_api e src GitHubSource w = (Inr None, w)"

fun fetch_html :: "env \<Rightarrow> news_source \<Rightarrow> source_class \<Rightarrow> world
    \<Rightarrow> (error + news_item list option) \<times> world" where
  "fetch_html e src HupuSource w = returned (hupu_fetch_html e src w)"
| "fetch_html e src HackerNewsSource w = returned (hackernews_fetch_html e src w)"
| "fetch_html e src ProductHuntSource w = returned (producthunt_fetch_html e src w)"
| "fetch_html e src GitHubSource w = returned (github_fetch_html e src w)"
| "fetch_html e src ZhihuSource w = (Inr None, w)"
| "fetch_html e src WallStreetCNSource w = (Inr None, w)"
| "fetch_html e src ThePaperSource w = (Inr None, w)"
| "fetch_html e src SspaiSource w = (Inr None, w)"

text \<open>\<^verbatim>\<open>NewsSource.fetch(self)\<close>.\<close>

definition source_fetch ::
  "env \<Rightarrow> news_source \<Rightarrow> world \<Rightarrow> (error + news_item list option) \<times> world" where
  "source_fetch e src w =
     (if \<not> truthy (src_enabled src) then (Inr (Some []), w)
      else if src_type src = JStr ''api'' then fetch_api e src (src_class src) w
      else if src_type src = JStr ''html'' then fetch_html e src (src_class src) w
      else (Inr (Some []), w))"

section \<open>Aggregator\<close>

definition SOURCE_MAP :: "string \<Rightarrow> source_class option" where
  "SOURCE_MAP =
     map_of [(''zhihu'', ZhihuSource),
             (''wallstreetcn'', WallStreetCNSource),
             (''hupu'', HupuSource),
             (''thepaper'', ThePaperSource),
             (''hackernews'', HackerNewsSource),
             (''producthunt'', ProductHuntSource),
             (''github'', GitHubSource),
             (''sspai'', SspaiSource)]"

text \<open>
  The body of the \<^verbatim>\<open>try\<close> in \<^verbatim>\<open>fetch_all_news\<close>: construct the source, fetch, and
  take \<^verbatim>\<open>len(items)\<close> for the progress line, which raises \<^verbatim>\<open>TypeError\<close> when the
  method returned \<^verbatim>\<open>None\<close>. The result is what \<^verbatim>\<open>all_items.extend\<close> receives.
\<close>

definition run_source ::
  "env \<Rightarrow> source_class \<Rightarrow> json \<Rightarrow> world \<Rightarrow> (error + news_item list) \<times> world" where
  "run_source e cls platform_config w =
     (case new_source cls platform_config of
        Inl er \<Rightarrow> (Inl er, w)
      | Inr src \<Rightarrow>
          (case source_fetch e src w of
             (Inl er, w1) \<Rightarrow> (Inl er, w1)
           | (Inr None, w1) \<Rightarrow> (Inl TypeError, w1)
           | (Inr (Some its), w1) \<Rightarrow> (Inr its, w1)))"

text \<open>
  The loop over \<^verbatim>\<open>config["platforms"].items()\<close>. The test of \<^verbatim>\<open>enabled\<close> and the
  lookup in \<^verbatim>\<open>SOURCE_MAP\<close> stand before the \<^verbatim>\<open>try\<close>; \<^verbatim>\<open>except Exception\<close> catches
  whatever the \<^verbatim>\<open>try\<close> raises, and the loop goes on.
\<close>

fun platforms_loop ::
  "env \<Rightarrow> (string \<times> json) list \<Rightarrow> world \<Rightarrow> (error + news_item list) \<times> world" where
  "platforms_loop e [] w = (Inr [], w)"
| "platforms_loop e ((platform_id, platform_config) # ps) w =
     (case py_get platform_config ''enabled'' (JBool True) of
        Inl er \<Rightarrow> (Inl er, w)
      | Inr en \<Rightarrow>
          if \<not> truthy en then platforms_loop e ps w
          else
            (case SOURCE_MAP platform_id of
               None \<Rightarrow> platforms_loop e ps w
             | Some cls \<Rightarrow>
                 (case run_source e cls platform_config w of
                    (Inl er, w1) \<Rightarrow> platforms_loop e ps w1
                  | (Inr its, w1) \<Rightarrow>
                      (case platforms_loop e ps w1 of
                         (Inl er, w2) \<Rightarrow> (Inl er, w2)
                       | (Inr rest, w2) \<Rightarrow> (Inr (its @ rest), w2)))))"

text \<open>
  \<^verbatim>\<open>fetch_all_news()\<close>, with the result of \<^verbatim>\<open>load_config()\<close> as its argument.
\<close>

definition fetch_all_news ::
  "env \<Rightarrow> json \<Rightarrow> world \<Rightarrow> (error + news_item list) \<times> world" where
  "fetch_all_news e config w =
     (case ebind (py_getitem config ''platforms'') py_items of
        Inl er \<Rightarrow> (Inl er, w)
      | Inr ps \<Rightarrow> platforms_loop e ps w)"


section \<open>The vocabulary of the specification\<close>

text \<open>
  The specification speaks of the records of a response, found at a fixed path
  (\<^verbatim>\<open>data[]\<close>, \<^verbatim>\<open>data.hotNews[]\<close>, \<^verbatim>\<open>data.items[]\<close>), and of records that have a
  title. These definitions follow its words, not the code: \<open>field\<close> reads a member of a
  JSON object, \<open>lookup_path\<close> follows a path of members, \<open>records_at\<close> is the array found
  at a path (no records when there is none).
\<close>

fun field :: "string \<Rightarrow> json \<Rightarrow> json option" where
  "field k (JDict kvs) = map_of kvs k"
| "field k JNull = None"
| "field k (JBool b) = None"
| "field k (JInt n) = None"
| "field k (JFloat x) = None"
| "field k (JStr s) = None"
| "field k (JList xs) = None"

fun lookup_path :: "string list \<Rightarrow> json \<Rightarrow> json option" where
  "lookup_path [] v = Some v"
| "lookup_path (k # ks) v = (case field k v of None \<Rightarrow> None | Some v1 \<Rightarrow> lookup_path ks v1)"

definition records_at :: "string list \<Rightarrow> json \<Rightarrow> json list" where
  "records_at path data = (case lookup_path path data of Some (JList rs) \<Rightarrow> rs | _ \<Rightarrow> [])"

text \<open>
  An empty value: \<^verbatim>\<open>null\<close>, \<^verbatim>\<open>false\<close>, zero, and the empty string, array and object.
  A record is titled at a path when a value stands there and is not empty. This is
  wider than the title text defined below: a number other than zero counts.
\<close>

definition empty_value :: "json \<Rightarrow> bool" where
  "empty_value v =
     (v = JNull \<or> v = JBool False \<or> v = JInt 0 \<or> v = JFloat 0 \<or> v = JStr [] \<or>
      v = JList [] \<or> v = JDict [])"

definition titled :: "string list \<Rightarrow> json \<Rightarrow> bool" where
  "titled path r = (case lookup_path path r of None \<Rightarrow> False | Some t \<Rightarrow> \<not> empty_value t)"

text \<open>The title path of a Zhihu record.\<close>

definition zhihu_title_path :: "string list" where
  "zhihu_title_path = [''target'', ''title_area'', ''text'']"

text \<open>
  A record of the expected shape: a JSON object, and for Zhihu one whose \<^verbatim>\<open>target\<close>,
  and the \<^verbatim>\<open>title_area\<close> and \<^verbatim>\<open>excerpt_area\<close> in it, are objects where they are
  present.
\<close>

fun is_dict :: "json \<Rightarrow> bool" where
  "is_dict (JDict kvs) = True"
| "is_dict JNull = False"
| "is_dict (JBool b) = False"
| "is_dict (JInt n) = False"
| "is_dict (JFloat x) = False"
| "is_dict (JStr s) = False"
| "is_dict (JList xs) = False"

definition dict_if_present :: "json option \<Rightarrow> bool" where
  "dict_if_present v = (case v of None \<Rightarrow> True | Some x \<Rightarrow> is_dict x)"

definition zhihu_shaped :: "json \<Rightarrow> bool" where
  "zhihu_shaped r =
     (is_dict r \<and>
      (case field ''target'' r of
         None \<Rightarrow> True
       | Some t \<Rightarrow>
           is_dict t \<and> dict_if_present (field ''title_area'' t) \<and>
           dict_if_present (field ''excerpt_area'' t)))"

text \<open>The value at a path, or the default the code puts in its place.\<close>

definition value_or :: "json \<Rightarrow> json option \<Rightarrow> json" where
  "value_or d v = (case v of None \<Rightarrow> d | Some x \<Rightarrow> x)"

text \<open>
  The title of the specification is a string that is not empty. \<open>title_text\<close> is the
  string at the title path of a record, and the empty string when nothing stands there
  or what stands there is not a string; a record is well formed when its \<open>title_text\<close>
  is not empty, so that \<open>nonempty (map (title_text path) rs)\<close> lists the titles of the
  well-formed records among \<open>rs\<close>, one each, in order. \<open>stamped\<close> says that every
  item has its timestamp set.
\<close>

definition title_text :: "string list \<Rightarrow> json \<Rightarrow> string" where
  "title_text path r = (case lookup_path path r of Some (JStr s) \<Rightarrow> s | _ \<Rightarrow> [])"

definition nonempty :: "string list \<Rightarrow> string list" where
  "nonempty ts = filter (\<lambda>t. t \<noteq> []) ts"

definition stamped :: "news_item list \<Rightarrow> bool" where
  "stamped its = list_all (\<lambda>it. timestamp it \<noteq> None) its"

text \<open>
  The shape the per-record code expects. A title is a string or \<^verbatim>\<open>null\<close> where it is
  present; a record is a JSON object; Zhihu's \<^verbatim>\<open>target\<close>, \<^verbatim>\<open>title_area\<close> and
  \<^verbatim>\<open>excerpt_area\<close> are objects where present; the \<^verbatim>\<open>article\<close> of a \<^verbatim>\<open>news\<close> or \<^verbatim>\<open>hot\<close>
  record is an object or \<^verbatim>\<open>null\<close> where present.
\<close>

definition text_or_null :: "json option \<Rightarrow> bool" where
  "text_or_null v =
     (case v of None \<Rightarrow> True | Some JNull \<Rightarrow> True | Some (JStr s) \<Rightarrow> True | Some _ \<Rightarrow> False)"

definition zhihu_expected :: "json \<Rightarrow> bool" where
  "zhihu_expected r = (zhihu_shaped r \<and> text_or_null (lookup_path zhihu_title_path r))"

definition flat_expected :: "string \<Rightarrow> json \<Rightarrow> bool" where
  "flat_expected k r = (is_dict r \<and> text_or_null (field k r))"

definition article_expected :: "json \<Rightarrow> bool" where
  "article_expected r =
     (is_dict r \<and>
      (case field ''article'' r of
         None \<Rightarrow> True
       | Some a \<Rightarrow> a = JNull \<or> (is_dict a \<and> text_or_null (field ''title'' a))))"

text \<open>
  On the \<^verbatim>\<open>live\<close> endpoint the title is the sanitized \<^verbatim>\<open>content\<close> (empty when there is
  no content); the record has the expected shape when it is an object on whose content
  the Sanitizer returns.
\<close>

definition live_title :: "env \<Rightarrow> json \<Rightarrow> string" where
  "live_title e r =
     (case strip_html e (value_or (JStr []) (field ''content'' r)) of Inr s \<Rightarrow> s | Inl er \<Rightarrow> [])"

definition live_expected :: "env \<Rightarrow> json \<Rightarrow> bool" where
  "live_expected e r =
     (is_dict r \<and>
      (case strip_html e (value_or (JStr []) (field ''content'' r)) of
         Inr s \<Rightarrow> True | Inl er \<Rightarrow> False))"

definition endpoint_title :: "env \<Rightarrow> string \<Rightarrow> json \<Rightarrow> string" where
  "endpoint_title e endpoint_key r =
     (if endpoint_key = ''live'' then live_title e r else title_text [''article'', ''title''] r)"

definition endpoint_expected :: "env \<Rightarrow> string \<Rightarrow> json \<Rightarrow> bool" where
  "endpoint_expected e endpoint_key r =
     (if endpoint_key = ''live'' then live_expected e r else article_expected r)"



text \<open>An enabled source of a given class and type: \<^verbatim>\<open>fetch()\<close> calls that class's method.\<close>

definition serves :: "news_source \<Rightarrow> source_class \<Rightarrow> string \<Rightarrow> bool" where
  "serves src cls tp = (src_class src = cls \<and> truthy (src_enabled src) \<and> src_type src = JStr tp)"

text \<open>
  A sanitized text: whitespace only as single spaces. \<open>collapsed\<close> says that every
  whitespace character is a space and is not followed by whitespace.
\<close>

fun collapsed :: "string \<Rightarrow> bool" where
  "collapsed [] = True"
| "collapsed [c] = (\<not> is_space c \<or> c = CHR 0x20)"
| "collapsed (c # d # cs) =
     ((\<not> is_space c \<or> (c = CHR 0x20 \<and> \<not> is_space d)) \<and> collapsed (d # cs))"

section \<open>A reference parser and concrete environments\<close>

text \<open>
  To run the Sanitizer on concrete inputs the parser needs a value. \<open>markup_get_text\<close>
  is the text extraction of an HTML parser on markup made of text, tags and the
  entities \<^verbatim>\<open>&lt;\<close>, \<^verbatim>\<open>&gt;\<close>, \<^verbatim>\<open>&amp;\<close>: a tag ends a text node, the entities of a text
  node are decoded, each node is stripped, the empty ones are dropped and the rest is
  joined with single spaces.
\<close>

fun text_nodes :: "bool \<Rightarrow> string \<Rightarrow> string list" where
  "text_nodes in_tag [] = [[]]"
| "text_nodes in_tag (c # cs) =
     (if in_tag then (if c = CHR ''>'' then [] # text_nodes False cs else text_nodes True cs)
      else if c = CHR ''<'' then text_nodes True cs
      else (case text_nodes False cs of [] \<Rightarrow> [[c]] | n # ns \<Rightarrow> (c # n) # ns))"

function decode_entities :: "string \<Rightarrow> string" where
  "decode_entities [] = []"
| "decode_entities (c # cs) =
     (if c = CHR ''&'' \<and> take 3 cs = ''lt;'' then CHR ''<'' # decode_entities (drop 3 cs)
      else if c = CHR ''&'' \<and> take 3 cs = ''gt;'' then CHR ''>'' # decode_entities (drop 3 cs)
      else if c = CHR ''&'' \<and> take 4 cs = ''amp;'' then CHR ''&'' # decode_entities (drop 4 cs)
      else c # decode_entities cs)"
  by pat_completeness auto
termination
  by (relation "measure length") auto

fun join_with :: "string \<Rightarrow> string list \<Rightarrow> string" where
  "join_with sep [] = []"
| "join_with sep [x] = x"
| "join_with sep (x # y # ys) = x @ sep @ join_with sep (y # ys)"

definition markup_get_text :: "string \<Rightarrow> string" where
  "markup_get_text s =
     join_with [CHR 0x20]
       (filter (\<lambda>n. n \<noteq> []) (map (\<lambda>n. py_strip (decode_entities n)) (text_nodes False s)))"

definition markup_soup :: "json \<Rightarrow> error + string" where
  "markup_soup v = (case v of JStr s \<Rightarrow> Inr (markup_get_text s) | _ \<Rightarrow> Inl MarkupError)"

text \<open>
  A scripted environment: the \<open>i\<close>-th request of the run is answered by \<open>script i\<close>,
  the clock counts its readings, every page parses to the given nodes.
\<close>

definition scripted_env :: "(nat \<Rightarrow> http_outcome) \<Rightarrow> tag option list \<Rightarrow> env" where
  "scripted_env script nodes =
     \<lparr>net = (\<lambda>i u p. script i),
      clock = (\<lambda>i. int i),
      str_of = (\<lambda>v. case v of JStr s \<Rightarrow> s | _ \<Rightarrow> []),
      soup_text = markup_soup,
      hupu_posts = (\<lambda>v. Inr nodes),
      hn_rows = (\<lambda>v. Inr nodes),
      ph_posts = (\<lambda>v. Inr []),
      github_articles = (\<lambda>v. Inr nodes)\<rparr>"

definition ok_response :: "json \<Rightarrow> http_outcome" where
  "ok_response j = Response \<lparr>status_code = 200, json_body = Some j, body_text = []\<rparr>"

definition page_response :: "string \<Rightarrow> http_outcome" where
  "page_response s = Response \<lparr>status_code = 200, json_body = None, body_text = s\<rparr>"

definition idle_world :: world where
  "idle_world = \<lparr>http_log = [], transport_calls = 0, clock_reads = 0\<rparr>"

text \<open>A source configuration with the common members, of the given type and URL.\<close>

definition platform_config :: "string \<Rightarrow> json \<Rightarrow> json" where
  "platform_config tp enabled =
     JDict [(''name'', JStr ''n''), (''icon'', JStr ''i''), (''type'', JStr tp),
            (''category'', JStr ''c''), (''enabled'', enabled), (''url'', JStr ''u'')]"

definition demo_source :: "source_class \<Rightarrow> string \<Rightarrow> json \<Rightarrow> news_source" where
  "demo_source cls tp enabled =
     \<lparr>src_class = cls, src_platform = ''p'', src_name = JStr ''n'', src_icon = JStr ''i'',
      src_type = JStr tp, src_category = JStr ''c'', src_enabled = enabled,
      src_url = JStr ''u'', src_endpoints = JNull, src_params = JNull\<rparr>"


text \<open>
  A network whose first two requests fault and whose third is answered, and the
  bookkeeping of the extraction loop: the fields of an item, and the fields a record
  contributes (none when it is skipped).
\<close>

definition flaky :: "nat \<Rightarrow> http_outcome" where
  "flaky i = (if i < 2 then ConnectionFault else ok_response (JDict [(''data'', JList [])]))"

definition item_fields :: "news_item \<Rightarrow> fields" where
  "item_fields it = (title it, url it, content it)"

definition kept :: "('r \<Rightarrow> error + fields option) \<Rightarrow> 'r \<Rightarrow> fields list" where
  "kept f r = (case f r of Inr (Some x) \<Rightarrow> [x] | _ \<Rightarrow> [])"

text \<open>The per-record code of an endpoint, by its key.\<close>

definition endpoint_record :: "env \<Rightarrow> string \<Rightarrow> json \<Rightarrow> error + fields option" where
  "endpoint_record e endpoint_key = (if endpoint_key = ''live'' then live_record e else article_record)"

text \<open>
  Responses, scripts and configurations for concrete runs: a Zhihu response with one
  titled and one untitled record, the same with a record that is a number, an Sspai
  response, a WallStreetCN response, a network down for its first three requests, a
  WallStreetCN source with two endpoints, a configuration whose first platform lacks
  its required members, and a Hacker News anchor with a relative link.
\<close>

definition zhihu_demo_data :: json where
  "zhihu_demo_data =
     JDict [(''data'', JList
       [JDict [(''target'', JDict [(''title_area'', JDict [(''text'', JStr ''A'')]),
                                   (''url'', JStr ''http://x'')])],
        JDict []])]"


definition sspai_demo_data :: json where
  "sspai_demo_data =
     JDict [(''data'', JList
       [JDict [(''title'', JStr ''T''), (''id'', JInt 7)],
        JDict [(''summary'', JStr ''s'')],
        JDict [(''title'', JStr ''U'')]])]"

definition news_demo_data :: json where
  "news_demo_data =
     JDict [(''data'', JDict [(''items'', JList
       [JDict [(''article'', JDict [(''title'', JStr ''N''), (''uri'', JStr ''http://n'')])]])])]"

definition outage :: "nat \<Rightarrow> http_outcome" where
  "outage i = (if i < 3 then ConnectionFault else ok_response news_demo_data)"

definition ws_demo_source :: news_source where
  "ws_demo_source =
     (demo_source WallStreetCNSource ''api'' (JBool True))
       \<lparr>src_endpoints := JDict [(''live'', JDict [(''url'', JStr ''l'')]),
                                (''news'', JDict [(''url'', JStr ''n'')])]\<rparr>"

definition demo_config :: json where
  "demo_config =
     JDict [(''platforms'', JDict
       [(''zhihu'', JDict [(''name'', JStr ''n'')]),
        (''sspai'', platform_config ''api'' (JBool True))])]"

definition ask_hn :: tag where
  "ask_hn = \<lparr>tag_strings = [''Ask HN''], tag_attrs = [(''href'', ''item?id=1'')]\<rparr>"

text \<open>
  A WallStreetCN response with a titled record and a record that is a number, a source
  with the \<^verbatim>\<open>news\<close> endpoint alone, a Zhihu record whose \<^verbatim>\<open>excerpt_area\<close> is
  \<^verbatim>\<open>null\<close>, an Sspai record whose title is a number, and a network whose first answer
  is the response with the number.
\<close>

definition news_bad_data :: json where
  "news_bad_data =
     JDict [(''data'', JDict [(''items'', JList
       [JDict [(''article'', JDict [(''title'', JStr ''N''), (''uri'', JStr ''http://n'')])],
        JInt 5])])]"

definition ws_news_source :: news_source where
  "ws_news_source =
     (demo_source WallStreetCNSource ''api'' (JBool True))
       \<lparr>src_endpoints := JDict [(''news'', JDict [(''url'', JStr ''n'')])]\<rparr>"

definition zhihu_null_excerpt :: json where
  "zhihu_null_excerpt =
     JDict [(''data'', JList
       [JDict [(''target'', JDict [(''title_area'', JDict [(''text'', JStr ''A'')]),
                                   (''excerpt_area'', JNull)])]])]"

definition sspai_numeric_title :: json where
  "sspai_numeric_title = JDict [(''data'', JList [JDict [(''title'', JInt 5)]])]"


section \<open>Transport: retries\<close>

text \<open>
  Claim C7. If the underlying HTTP call fails on attempts 1 and 2 and succeeds on
  attempt 3, \<^verbatim>\<open>fetch\<close> returns the result of attempt 3 (the parsed JSON, or the raw
  text when the body is not JSON), not a failure; it has sent three requests in one
  Transport call.
\<close>

theorem fetch_third_attempt_succeeds:
  assumes "attempt_fails (net e (length (http_log w)) u p)"
    and "attempt_fails (net e (Suc (length (http_log w))) u p)"
    and "net e (Suc (Suc (length (http_log w)))) u p = Response r"
    and "\<not> is_error_status (status_code r)"
  shows "fetch e u p w =
           (Inr (response_value r),
            w\<lparr>http_log := http_log w @ [(u, p), (u, p), (u, p)],
              transport_calls := Suc (transport_calls w)\<rparr>)"
proof -
  let ?w0 = "w\<lparr>transport_calls := Suc (transport_calls w)\<rparr>"
  let ?w1 = "?w0\<lparr>http_log := http_log w @ [(u, p)]\<rparr>"
  let ?w2 = "?w0\<lparr>http_log := http_log w @ [(u, p), (u, p)]\<rparr>"
  let ?w3 = "?w0\<lparr>http_log := http_log w @ [(u, p), (u, p), (u, p)]\<rparr>"
  have a1: "fetch_attempt e u p ?w0 = (Inl FetchFailed, ?w1)"
    using assms(1)
    by (cases "net e (length (http_log w)) u p") (simp_all add: fetch_attempt_def http_get_def)
  have a2: "fetch_attempt e u p ?w1 = (Inl FetchFailed, ?w2)"
    using assms(2)
    by (cases "net e (Suc (length (http_log w))) u p")
      (simp_all add: fetch_attempt_def http_get_def)
  have a3: "fetch_attempt e u p ?w2 = (Inr (response_value r), ?w3)"
    using assms(3,4)
    by (simp add: fetch_attempt_def http_get_def response_value_def split: option.splits)
  have "retry (Suc (Suc (Suc 0))) (fetch_attempt e u p) ?w0 = (Inr (response_value r), ?w3)"
    by (simp add: a1 a2 a3)
  then show ?thesis
    by (simp add: fetch_def numeral_3_eq_3)
qed

theorem fetch_third_attempt_succeeds_witness:
  "fetch (scripted_env flaky []) (JStr ''u'') JNull idle_world =
     (Inr (JDict [(''data'', JList [])]),
      \<lparr>http_log = [(JStr ''u'', JNull), (JStr ''u'', JNull), (JStr ''u'', JNull)],
       transport_calls = 1, clock_reads = 0\<rparr>)"
  using fetch_third_attempt_succeeds [of "scripted_env flaky []" idle_world "JStr ''u''" JNull
      "\<lparr>status_code = 200, json_body = Some (JDict [(''data'', JList [])]), body_text = []\<rparr>"]
  by (simp add: scripted_env_def flaky_def idle_world_def ok_response_def is_error_status_def
      response_value_def)

section \<open>\<^verbatim>\<open>NewsSource.fetch\<close>: the two early returns\<close>

text \<open>
  Claim C5. A source whose \<^verbatim>\<open>enabled\<close> flag is false returns the empty list and leaves
  the world as it found it: no Transport call, no request, no reading of the clock.
\<close>

theorem disabled_source_fetches_nothing:
  "\<not> truthy (src_enabled src) \<Longrightarrow> source_fetch e src w = (Inr (Some []), w)"
  by (simp add: source_fetch_def)

theorem disabled_source_fetches_nothing_witness:
  "source_fetch (scripted_env flaky []) (demo_source ZhihuSource ''api'' (JBool False)) idle_world
     = (Inr (Some []), idle_world)"
  using disabled_source_fetches_nothing
    [of "demo_source ZhihuSource ''api'' (JBool False)" "scripted_env flaky []" idle_world]
  by (simp add: demo_source_def)

text \<open>
  Claim C10. An enabled source whose type is neither \<^verbatim>\<open>"api"\<close> nor \<^verbatim>\<open>"html"\<close> returns
  the empty list, without an error and without touching the network.
\<close>

theorem unknown_type_fetches_nothing:
  "truthy (src_enabled src) \<Longrightarrow> src_type src \<noteq> JStr ''api'' \<Longrightarrow> src_type src \<noteq> JStr ''html''
     \<Longrightarrow> source_fetch e src w = (Inr (Some []), w)"
  by (simp add: source_fetch_def)

theorem unknown_type_fetches_nothing_witness:
  "source_fetch (scripted_env flaky []) (demo_source ZhihuSource ''rss'' (JBool True)) idle_world
     = (Inr (Some []), idle_world)"
  using unknown_type_fetches_nothing
    [of "demo_source ZhihuSource ''rss'' (JBool True)" "scripted_env flaky []" idle_world]
  by (simp add: demo_source_def)


section \<open>The extraction loop\<close>

lemma item_fields_make_item: "item_fields (make_item src t u c ts) = (t, u, c)"
  by (simp add: item_fields_def make_item_def)

lemma kept_Some: "f r = Inr (Some y) \<Longrightarrow> kept f r = [y]"
  by (simp add: kept_def)

lemma kept_None: "f r = Inr None \<Longrightarrow> kept f r = []"
  by (simp add: kept_def)

lemma collect_fields:
  "collect f e src rs w = (Inr its, w') \<Longrightarrow> map item_fields its = concat (map (kept f) rs)"
proof (induction rs arbitrary: w its w')
  case Nil
  then show ?case by simp
next
  case (Cons r rs)
  show ?case
  proof (cases "f r")
    case (Inl er)
    with Cons.prems show ?thesis by simp
  next
    case (Inr x)
    show ?thesis
    proof (cases x)
      case None
      with Inr Cons show ?thesis by (simp add: kept_None)
    next
      case (Some y)
      obtain t u c where y: "y = (t, u, c)" by (cases y)
      obtain ts w1 where n: "now e w = (ts, w1)" by (cases "now e w")
      obtain res w2 where c: "collect f e src rs w1 = (res, w2)" by (cases "collect f e src rs w1")
      from Cons.prems Inr Some y n c obtain its1 where r: "res = Inr its1"
        and i: "its = make_item src t u c ts # its1" and "w' = w2"
        by (cases res) auto
      from Cons.IH [of w1 its1 w2] c r have "map item_fields its1 = concat (map (kept f) rs)" by simp
      moreover have "kept f r = [(t, u, c)]" using Inr Some y by (simp add: kept_Some)
      ultimately show ?thesis using i by (simp add: item_fields_make_item)
    qed
  qed
qed

lemma collect_no_raise:
  "collect f e src rs w = (Inr its, w') \<Longrightarrow> r \<in> set rs \<Longrightarrow> \<exists>x. f r = Inr x"
proof (induction rs arbitrary: w its w')
  case Nil
  then show ?case by simp
next
  case (Cons a rs)
  show ?case
  proof (cases "f a")
    case (Inl er)
    with Cons.prems show ?thesis by simp
  next
    case (Inr x)
    show ?thesis
    proof (cases "r = a")
      case True
      with Inr show ?thesis by simp
    next
      case False
      with Cons.prems have mem: "r \<in> set rs" by simp
      show ?thesis
      proof (cases x)
        case None
        with Inr Cons.prems Cons.IH mem show ?thesis by simp
      next
        case (Some y)
        obtain t u c where y: "y = (t, u, c)" by (cases y)
        obtain ts w1 where n: "now e w = (ts, w1)" by (cases "now e w")
        obtain res w2 where c: "collect f e src rs w1 = (res, w2)" by (cases "collect f e src rs w1")
        from Cons.prems Inr Some y n c obtain its1 where r: "res = Inr its1"
          by (cases res) auto
        from Cons.IH [of w1 its1 w2] c r mem show ?thesis by simp
      qed
    qed
  qed
qed


lemma kept_map_filter:
  assumes "\<And>r. r \<in> set rs \<Longrightarrow> \<exists>x. f r = Inr x"
    and "\<And>r x. r \<in> set rs \<Longrightarrow> f r = Inr x \<Longrightarrow> (x \<noteq> None) = P r"
    and "\<And>r y. r \<in> set rs \<Longrightarrow> f r = Inr (Some y) \<Longrightarrow> h y = g r"
  shows "map h (concat (map (kept f) rs)) = map g (filter P rs)"
  using assms
proof (induction rs)
  case Nil
  then show ?case by simp
next
  case (Cons a rs)
  from Cons.prems(1) [of a] obtain x where x: "f a = Inr x" by auto
  have ih: "map h (concat (map (kept f) rs)) = map g (filter P rs)"
    using Cons.IH Cons.prems by simp
  show ?case
  proof (cases x)
    case None
    with x Cons.prems(2) [of a x] have "\<not> P a" by simp
    with x None ih show ?thesis by (simp add: kept_None)
  next
    case (Some y)
    with x Cons.prems(2) [of a x] have "P a" by simp
    moreover from x Some Cons.prems(3) [of a y] have "h y = g a" by simp
    ultimately show ?thesis using x Some ih by (simp add: kept_Some)
  qed
qed

lemma truthy_iff: "truthy v = (\<not> empty_value v)"
  by (cases v) (auto simp: empty_value_def)

lemma py_get_Inr_iff: "(py_get v k d = Inr x) = (is_dict v \<and> x = value_or d (field k v))"
  by (cases v) (auto simp: value_or_def split: option.splits)

lemma py_get_not_dict: "\<not> is_dict v \<Longrightarrow> py_get v k d = Inl AttributeError"
  by (cases v) auto

lemma py_get_dict: "is_dict v \<Longrightarrow> py_get v k d = Inr (value_or d (field k v))"
  by (cases v) (auto simp: value_or_def split: option.splits)

lemma ebind_Inr_iff: "(ebind m f = Inr y) = (\<exists>x. m = Inr x \<and> f x = Inr y)"
  by (cases m) (auto simp: ebind_def)

lemma ebind_Inr: "ebind (Inr x) f = f x"
  by (simp add: ebind_def)

lemma ebind_Inl: "ebind (Inl er) f = Inl er"
  by (simp add: ebind_def)

lemma contains_field: "py_contains k data = Inr False \<Longrightarrow> field k data = None"
  by (cases data) auto

lemma getitem_field: "py_getitem v k = Inr x \<Longrightarrow> field k v = Some x"
  by (cases v) (auto split: option.splits)

lemma field_getitem: "field k v = Some x \<Longrightarrow> py_getitem v k = Inr x \<and> py_contains k v = Inr True"
  by (cases v) auto

lemma iter_records:
  assumes "py_iter v = Inr rs"
    and "collect f e src rs w = (Inr its, w')"
    and "\<And>r. \<not> is_dict r \<Longrightarrow> \<exists>er. f r = Inl er"
  shows "rs = (case v of JList xs \<Rightarrow> xs | _ \<Rightarrow> [])"
proof -
  have nd: "\<And>r. r \<in> set rs \<Longrightarrow> is_dict r"
  proof -
    fix r assume "r \<in> set rs"
    from collect_no_raise [OF assms(2) this] obtain x where "f r = Inr x" by blast
    with assms(3) [of r] show "is_dict r" by auto
  qed
  show ?thesis
  proof (cases v)
    case (JList xs)
    with assms(1) show ?thesis by simp
  next
    case (JDict kvs)
    with assms(1) have rs: "rs = map (\<lambda>kv. JStr (fst kv)) kvs" by simp
    have "kvs = []"
    proof (cases kvs)
      case Nil then show ?thesis .
    next
      case (Cons kv rest)
      with rs have "JStr (fst kv) \<in> set rs" by simp
      from nd [OF this] show ?thesis by simp
    qed
    with rs JDict show ?thesis by simp
  next
    case (JStr s)
    with assms(1) have rs: "rs = map (\<lambda>c. JStr [c]) s" by simp
    have "s = []"
    proof (cases s)
      case Nil then show ?thesis .
    next
      case (Cons c rest)
      with rs have "JStr [c] \<in> set rs" by simp
      from nd [OF this] show ?thesis by simp
    qed
    with rs JStr show ?thesis by simp
  qed (use assms(1) in simp_all)
qed

lemma records_at_Cons:
  "records_at (k # ks) data = (case field k data of None \<Rightarrow> [] | Some v \<Rightarrow> records_at ks v)"
  by (simp add: records_at_def split: option.splits)

lemma records_at_Nil: "records_at [] v = (case v of JList xs \<Rightarrow> xs | _ \<Rightarrow> [])"
  by (simp add: records_at_def)

lemma sspai_parse_records:
  assumes "sspai_parse e src data w = (Inr its, w')"
  shows "collect sspai_record e src (records_at [''data''] data) w = (Inr its, w')"
proof -
  have nd: "\<And>r. \<not> is_dict r \<Longrightarrow> \<exists>er. sspai_record r = Inl er"
    by (simp add: sspai_record_def py_get_not_dict ebind_Inl)
  from assms obtain b where b: "py_contains ''data'' data = Inr b"
    by (cases "py_contains ''data'' data") (auto simp: sspai_parse_def)
  show ?thesis
  proof (cases b)
    case False
    with b assms have "its = []" "w' = w" by (auto simp: sspai_parse_def)
    moreover from False b have "records_at [''data''] data = []"
      by (simp add: records_at_Cons contains_field)
    ultimately show ?thesis by simp
  next
    case True
    with b assms obtain rs where it: "ebind (py_getitem data ''data'') py_iter = Inr rs"
      and c: "collect sspai_record e src rs w = (Inr its, w')"
      by (cases "ebind (py_getitem data ''data'') py_iter") (auto simp: sspai_parse_def)
    from it obtain v where g: "py_getitem data ''data'' = Inr v" and i: "py_iter v = Inr rs"
      by (auto simp: ebind_Inr_iff)
    from iter_records [OF i c nd] getitem_field [OF g]
    have "rs = records_at [''data''] data" by (simp add: records_at_Cons records_at_Nil)
    with c show ?thesis by simp
  qed
qed

lemma sspai_record_titled:
  "sspai_record r = Inr x \<Longrightarrow> (x \<noteq> None) = titled [''title''] r"
  by (auto simp: sspai_record_def ebind_Inr_iff py_get_Inr_iff truthy_iff titled_def
      value_or_def empty_value_def split: option.splits if_splits)

lemma sspai_record_url:
  "sspai_record r = Inr (Some (t, u, c)) \<Longrightarrow> u = value_or (JStr []) (field ''id'' r)"
  by (auto simp: sspai_record_def ebind_Inr_iff py_get_Inr_iff split: if_splits)

text \<open>
  Claim C9. For Sspai, the url of every extracted item is the \<^verbatim>\<open>id\<close> member of its
  record, and the empty string when the record has none: the urls of the items are,
  in order, those values of the titled records.
\<close>

theorem sspai_url_is_record_id:
  assumes "sspai_parse e src data w = (Inr its, w')"
  shows "map url its =
           map (\<lambda>r. value_or (JStr []) (field ''id'' r))
             (filter (titled [''title'']) (records_at [''data''] data))"
proof -
  note c = sspai_parse_records [OF assms]
  have "map (\<lambda>y. fst (snd y)) (concat (map (kept sspai_record) (records_at [''data''] data))) =
        map (\<lambda>r. value_or (JStr []) (field ''id'' r))
          (filter (titled [''title'']) (records_at [''data''] data))"
  proof (rule kept_map_filter)
    fix r assume "r \<in> set (records_at [''data''] data)"
    then show "\<exists>x. sspai_record r = Inr x" using collect_no_raise [OF c] by blast
  next
    fix r x assume "sspai_record r = Inr x"
    then show "(x \<noteq> None) = titled [''title''] r" by (rule sspai_record_titled)
  next
    fix r y assume "sspai_record r = Inr (Some y)"
    then show "fst (snd y) = value_or (JStr []) (field ''id'' r)"
      using sspai_record_url [of r "fst y" "fst (snd y)" "snd (snd y)"] by simp
  qed
  moreover have "map url its = map (\<lambda>y. fst (snd y)) (map item_fields its)"
    by (simp add: item_fields_def)
  ultimately show ?thesis using collect_fields [OF c] by simp
qed

section \<open>Failing endpoints and failing sources\<close>

lemma endpoints_loop_append:
  "endpoints_loop e src eps1 w = (Inr its1, w1) \<Longrightarrow>
   endpoints_loop e src eps2 w1 = (Inr its2, w2) \<Longrightarrow>
   endpoints_loop e src (eps1 @ eps2) w = (Inr (its1 @ its2), w2)"
proof (induction eps1 arbitrary: w its1)
  case Nil
  then show ?case by simp
next
  case (Cons ep eps1)
  obtain k cfg where ep: "ep = (k, cfg)" by (cases ep)
  from Cons.prems(1) ep obtain u where u: "py_getitem cfg ''url'' = Inr u"
    by (cases "py_getitem cfg ''url''") auto
  from Cons.prems(1) ep u obtain p where p: "py_get cfg ''params'' (JDict []) = Inr p"
    by (cases "py_get cfg ''params'' (JDict [])") auto
  obtain res wa where r: "endpoint_items e src k u p w = (res, wa)"
    by (cases "endpoint_items e src k u p w")
  show ?case
  proof (cases res)
    case (Inl er)
    with Cons.prems(1) ep u p r have "endpoints_loop e src eps1 wa = (Inr its1, w1)" by simp
    from Cons.IH [OF this Cons.prems(2)] ep u p r Inl show ?thesis by simp
  next
    case (Inr its)
    obtain res2 wb where l: "endpoints_loop e src eps1 wa = (res2, wb)"
      by (cases "endpoints_loop e src eps1 wa")
    from Cons.prems(1) ep u p r Inr l obtain rest where rest: "res2 = Inr rest"
      and i: "its1 = its @ rest" and "wb = w1"
      by (cases res2) auto
    with l have "endpoints_loop e src eps1 wa = (Inr rest, w1)" by simp
    from Cons.IH [OF this Cons.prems(2)] ep u p r Inr i show ?thesis by simp
  qed
qed


text \<open>
  Claim C4. When the Transport call of one endpoint of WallStreetCN raises, the
  source still returns the items of the endpoints before it and of the endpoints
  after it, the latter fetched from the world the failed call left.
\<close>

theorem endpoint_failure_is_isolated:
  assumes endpoints: "src_endpoints src = JDict (eps1 @ (k, cfg) # eps2)"
    and before: "endpoints_loop e src eps1 w = (Inr its1, w1)"
    and url: "py_getitem cfg ''url'' = Inr u"
    and params: "py_get cfg ''params'' (JDict []) = Inr p"
    and fails: "fetch e u p w1 = (Inl er, w2)"
    and after: "endpoints_loop e src eps2 w2 = (Inr its2, w3)"
  shows "wallstreetcn_fetch_api e src w = (Inr (its1 @ its2), w3)"
proof -
  from fails have "endpoint_items e src k u p w1 = (Inl er, w2)"
    by (simp add: endpoint_items_def)
  with url params after have "endpoints_loop e src ((k, cfg) # eps2) w1 = (Inr its2, w3)"
    by simp
  from endpoints_loop_append [OF before this] endpoints show ?thesis
    by (simp add: wallstreetcn_fetch_api_def)
qed

lemma platforms_loop_total:
  "list_all is_dict (map snd ps) \<Longrightarrow> \<exists>its w'. platforms_loop e ps w = (Inr its, w')"
proof (induction ps arbitrary: w)
  case Nil
  then show ?case by simp
next
  case (Cons p ps)
  obtain pid cfg where p: "p = (pid, cfg)" by (cases p)
  from Cons.prems p have d: "is_dict cfg" and rest: "list_all is_dict (map snd ps)" by simp_all
  have ih: "\<And>w. \<exists>its w'. platforms_loop e ps w = (Inr its, w')" using Cons.IH rest by blast
  from d obtain en where en: "py_get cfg ''enabled'' (JBool True) = Inr en" by (simp add: py_get_dict)
  show ?case
  proof (cases "truthy en")
    case False
    with p en ih [of w] show ?thesis by simp
  next
    case True
    show ?thesis
    proof (cases "SOURCE_MAP pid")
      case None
      with p en True ih [of w] show ?thesis by simp
    next
      case (Some cls)
      obtain res w1 where r: "run_source e cls cfg w = (res, w1)" by (cases "run_source e cls cfg w")
      from ih [of w1] obtain rest' w2 where l: "platforms_loop e ps w1 = (Inr rest', w2)" by blast
      show ?thesis using p en True Some r l by (cases res) simp_all
    qed
  qed
qed

lemma platforms_loop_append:
  "platforms_loop e ps1 w = (Inr its1, w1) \<Longrightarrow>
   platforms_loop e ps2 w1 = (Inr its2, w2) \<Longrightarrow>
   platforms_loop e (ps1 @ ps2) w = (Inr (its1 @ its2), w2)"
proof (induction ps1 arbitrary: w its1)
  case Nil
  then show ?case by simp
next
  case (Cons a ps1)
  obtain pid cfg where a: "a = (pid, cfg)" by (cases a)
  from Cons.prems(1) a obtain en where en: "py_get cfg ''enabled'' (JBool True) = Inr en"
    by (cases "py_get cfg ''enabled'' (JBool True)") auto
  show ?case
  proof (cases "truthy en")
    case False
    with Cons.prems(1) a en have "platforms_loop e ps1 w = (Inr its1, w1)" by simp
    from Cons.IH [OF this Cons.prems(2)] a en False show ?thesis by simp
  next
    case True
    show ?thesis
    proof (cases "SOURCE_MAP pid")
      case None
      with Cons.prems(1) a en True have "platforms_loop e ps1 w = (Inr its1, w1)" by simp
      from Cons.IH [OF this Cons.prems(2)] a en True None show ?thesis by simp
    next
      case (Some cls)
      obtain res wa where r: "run_source e cls cfg w = (res, wa)" by (cases "run_source e cls cfg w")
      show ?thesis
      proof (cases res)
        case (Inl er)
        with Cons.prems(1) a en True Some r have "platforms_loop e ps1 wa = (Inr its1, w1)" by simp
        from Cons.IH [OF this Cons.prems(2)] a en True Some r Inl show ?thesis by simp
      next
        case (Inr its)
        obtain res2 wb where l: "platforms_loop e ps1 wa = (res2, wb)"
          by (cases "platforms_loop e ps1 wa")
        from Cons.prems(1) a en True Some r Inr l obtain rest where rest: "res2 = Inr rest"
          and i: "its1 = its @ rest" and "wb = w1"
          by (cases res2) auto
        with l have "platforms_loop e ps1 wa = (Inr rest, w1)" by simp
        from Cons.IH [OF this Cons.prems(2)] a en True Some r Inr i show ?thesis by simp
      qed
    qed
  qed
qed

lemma platform_entry_not_object_raises:
  "\<not> is_dict cfg \<Longrightarrow> platforms_loop e ((pid, cfg) # ps) w = (Inl AttributeError, w)"
  by (simp add: py_get_not_dict)

text \<open>
  Claim C1. For a configuration whose platforms are JSON objects, and whatever the
  sources do, \<^verbatim>\<open>fetch_all_news\<close> returns a list. When constructing or fetching an
  enabled source raises, the error is caught: the result is the items of the sources
  before it followed by the items of the sources after it, which are all run. (The
  test of \<^verbatim>\<open>enabled\<close> stands before the \<^verbatim>\<open>try\<close>: a platform entry that is not an
  object, which no source configuration is, raises there.)
\<close>

theorem source_failure_is_isolated:
  assumes platforms: "py_getitem config ''platforms'' = Inr (JDict ps)"
    and dicts: "list_all is_dict (map snd ps)"
  shows "(\<exists>its w'. fetch_all_news e config w = (Inr its, w')) \<and>
         (\<forall>ps1 pid cfg ps2 its1 w1 en cls er w2.
            ps = ps1 @ (pid, cfg) # ps2 \<and>
            platforms_loop e ps1 w = (Inr its1, w1) \<and>
            py_get cfg ''enabled'' (JBool True) = Inr en \<and> truthy en \<and>
            SOURCE_MAP pid = Some cls \<and>
            run_source e cls cfg w1 = (Inl er, w2) \<longrightarrow>
            (\<exists>its2 w3. platforms_loop e ps2 w2 = (Inr its2, w3) \<and>
                       fetch_all_news e config w = (Inr (its1 @ its2), w3)))"
proof (intro conjI allI impI)
  have f: "fetch_all_news e config w = platforms_loop e ps w"
    using platforms by (simp add: fetch_all_news_def ebind_def)
  from platforms_loop_total [OF dicts] f
  show "\<exists>its w'. fetch_all_news e config w = (Inr its, w')" by simp
  fix ps1 pid cfg ps2 its1 w1 en cls er w2
  assume a: "ps = ps1 @ (pid, cfg) # ps2 \<and>
            platforms_loop e ps1 w = (Inr its1, w1) \<and>
            py_get cfg ''enabled'' (JBool True) = Inr en \<and> truthy en \<and>
            SOURCE_MAP pid = Some cls \<and>
            run_source e cls cfg w1 = (Inl er, w2)"
  with dicts have "list_all is_dict (map snd ps2)" by simp
  from platforms_loop_total [OF this] obtain its2 w3 where
    l: "platforms_loop e ps2 w2 = (Inr its2, w3)" by blast
  with a have "platforms_loop e ((pid, cfg) # ps2) w1 = (Inr its2, w3)" by simp
  with a platforms_loop_append [of e ps1 w its1 w1 "(pid, cfg) # ps2" its2 w3]
  have "platforms_loop e ps w = (Inr (its1 @ its2), w3)" by simp
  with f l show "\<exists>its2 w3. platforms_loop e ps2 w2 = (Inr its2, w3) \<and>
      fetch_all_news e config w = (Inr (its1 @ its2), w3)" by simp
qed


section \<open>The records of a response\<close>

lemma is_dictE: "is_dict v \<Longrightarrow> \<exists>kvs. v = JDict kvs"
  by (cases v) auto

lemma strip_html_falsy: "\<not> truthy c \<Longrightarrow> strip_html e c = Inr []"
  by (simp add: strip_html_def)

lemma zhihu_parse_list:
  "field ''data'' data = Some (JList rs) \<Longrightarrow> zhihu_parse e src data w = collect zhihu_record e src rs w"
  by (cases data) (auto simp: zhihu_parse_def ebind_def)

lemma sspai_parse_list:
  "field ''data'' data = Some (JList rs) \<Longrightarrow> sspai_parse e src data w = collect sspai_record e src rs w"
  by (cases data) (auto simp: sspai_parse_def ebind_def)

lemma thepaper_parse_list:
  assumes "lookup_path [''data'', ''hotNews''] data = Some (JList rs)"
  shows "thepaper_parse e src data w = collect (thepaper_record e) e src rs w"
proof -
  from assms obtain d where d: "field ''data'' data = Some d" and h: "field ''hotNews'' d = Some (JList rs)"
    by (auto split: option.splits)
  from field_getitem [OF d] field_getitem [OF h] show ?thesis
    by (simp add: thepaper_parse_def ebind_def)
qed


lemma collect_expected:
  assumes "\<And>r. r \<in> set rs \<Longrightarrow> \<exists>u c. f r = Inr (if g r = [] then None else Some (JStr (g r), u, c))"
  shows "\<exists>its. collect f e src rs w = (Inr its, w\<lparr>clock_reads := clock_reads w + length its\<rparr>)
           \<and> map title its = map JStr (nonempty (map g rs)) \<and> stamped its"
  using assms
proof (induction rs arbitrary: w)
  case Nil
  then show ?case by (simp add: nonempty_def stamped_def)
next
  case (Cons a rs)
  from Cons.prems [of a] obtain u c where
    a: "f a = Inr (if g a = [] then None else Some (JStr (g a), u, c))" by auto
  have ih: "\<And>w. \<exists>its. collect f e src rs w = (Inr its, w\<lparr>clock_reads := clock_reads w + length its\<rparr>)
           \<and> map title its = map JStr (nonempty (map g rs)) \<and> stamped its"
    using Cons.IH Cons.prems by simp
  show ?case
  proof (cases "g a = []")
    case True
    with a ih [of w] show ?thesis by (simp add: nonempty_def)
  next
    case False
    from ih [of "w\<lparr>clock_reads := Suc (clock_reads w)\<rparr>"] obtain its where
      c: "collect f e src rs (w\<lparr>clock_reads := Suc (clock_reads w)\<rparr>) =
            (Inr its, w\<lparr>clock_reads := Suc (clock_reads w) + length its\<rparr>)"
      and t: "map title its = map JStr (nonempty (map g rs))" and s: "stamped its"
      by auto
    let ?it = "make_item src (JStr (g a)) u c (clock e (clock_reads w))"
    from a False c have "collect f e src (a # rs) w =
        (Inr (?it # its), w\<lparr>clock_reads := clock_reads w + length (?it # its)\<rparr>)"
      by (simp add: now_def)
    moreover from t False have "map title (?it # its) = map JStr (nonempty (map g (a # rs)))"
      by (simp add: nonempty_def make_item_def)
    moreover from s have "stamped (?it # its)" by (simp add: stamped_def make_item_def)
    ultimately show ?thesis by blast
  qed
qed

lemma zhihu_record_expected:
  "zhihu_expected r \<Longrightarrow>
     \<exists>u c. zhihu_record r = Inr (if title_text zhihu_title_path r = [] then None
                                  else Some (JStr (title_text zhihu_title_path r), u, c))"
  by (auto simp: zhihu_expected_def zhihu_shaped_def dict_if_present_def text_or_null_def
      zhihu_record_def zhihu_title_path_def title_text_def ebind_def
      split: option.splits json.splits dest!: is_dictE)

lemma sspai_record_expected:
  "flat_expected ''title'' r \<Longrightarrow>
     \<exists>u c. sspai_record r = Inr (if title_text [''title''] r = [] then None
                                  else Some (JStr (title_text [''title''] r), u, c))"
  by (auto simp: flat_expected_def text_or_null_def sspai_record_def title_text_def ebind_def
      split: option.splits json.splits dest!: is_dictE)

lemma thepaper_record_expected:
  "flat_expected ''name'' r \<Longrightarrow>
     \<exists>u c. thepaper_record e r = Inr (if title_text [''name''] r = [] then None
                                  else Some (JStr (title_text [''name''] r), u, c))"
  by (auto simp: flat_expected_def text_or_null_def thepaper_record_def title_text_def ebind_def
      split: option.splits json.splits dest!: is_dictE)

lemma article_record_expected:
  "article_expected r \<Longrightarrow>
     \<exists>u c. article_record r = Inr (if title_text [''article'', ''title''] r = [] then None
                                  else Some (JStr (title_text [''article'', ''title''] r), u, c))"
  by (auto simp: article_expected_def text_or_null_def article_record_def title_text_def ebind_def
      split: option.splits json.splits dest!: is_dictE)

lemma live_record_expected:
  "live_expected e r \<Longrightarrow>
     \<exists>u c. live_record e r = Inr (if live_title e r = [] then None
                                  else Some (JStr (live_title e r), u, c))"
  by (auto simp: live_expected_def live_record_def live_title_def ebind_def value_or_def
      strip_html_falsy split: option.splits sum.splits dest!: is_dictE)

lemma endpoint_record_expected:
  assumes "endpoint_expected e k r"
  shows "\<exists>u c. endpoint_record e k r = Inr (if endpoint_title e k r = [] then None
                                  else Some (JStr (endpoint_title e k r), u, c))"
proof (cases "k = ''live''")
  case True
  with assms have "live_expected e r" by (simp add: endpoint_expected_def)
  from live_record_expected [OF this] True show ?thesis
    by (auto simp: endpoint_record_def endpoint_title_def)
next
  case False
  with assms have "article_expected r" by (simp add: endpoint_expected_def)
  from article_record_expected [OF this] False show ?thesis
    by (auto simp: endpoint_record_def endpoint_title_def)
qed

lemma returned_Inr: "returned (Inr its, w) = (Inr (Some its), w)"
  by (simp add: returned_def)


lemma parse_endpoint_list:
  assumes "lookup_path [''data'', ''items''] data = Some (JList rs)"
    and "k = ''live'' \<or> k = ''news'' \<or> k = ''hot''"
  shows "parse_endpoint e src k data w = collect (endpoint_record e k) e src rs w"
proof -
  from assms(1) obtain d where d: "field ''data'' data = Some d" and h: "field ''items'' d = Some (JList rs)"
    by (auto split: option.splits)
  from field_getitem [OF d] field_getitem [OF h] assms(2) show ?thesis
    by (auto simp: parse_endpoint_def endpoint_record_def ebind_def)
qed

lemma zhihu_fetch_collect:
  assumes "serves src ZhihuSource ''api''"
    and "fetch e (src_url src) JNull w = (Inr data, w1)"
    and "lookup_path [''data''] data = Some (JList rs)"
  shows "source_fetch e src w = returned (collect zhihu_record e src rs w1)"
proof -
  from assms(3) have "field ''data'' data = Some (JList rs)" by (simp split: option.splits)
  from zhihu_parse_list [OF this] assms(1,2) show ?thesis
    by (simp add: serves_def source_fetch_def zhihu_fetch_api_def)
qed

lemma thepaper_fetch_collect:
  assumes "serves src ThePaperSource ''api''"
    and "fetch e (src_url src) JNull w = (Inr data, w1)"
    and "lookup_path [''data'', ''hotNews''] data = Some (JList rs)"
  shows "source_fetch e src w = returned (collect (thepaper_record e) e src rs w1)"
  using thepaper_parse_list [OF assms(3)] assms(1,2)
  by (simp add: serves_def source_fetch_def thepaper_fetch_api_def)

lemma sspai_fetch_collect:
  assumes "serves src SspaiSource ''api''"
    and "src_params src = JDict ps"
    and "fetch e (src_url src)
           (JDict (dict_set ''created_at'' (JInt (whole_seconds (clock e (clock_reads w)))) ps))
           (w\<lparr>clock_reads := Suc (clock_reads w)\<rparr>) = (Inr data, w1)"
    and "lookup_path [''data''] data = Some (JList rs)"
  shows "source_fetch e src w = returned (collect sspai_record e src rs w1)"
proof -
  from assms(4) have "field ''data'' data = Some (JList rs)" by (simp split: option.splits)
  from sspai_parse_list [OF this] assms(1,2,3) show ?thesis
    by (simp add: serves_def source_fetch_def sspai_fetch_api_def now_def)
qed


lemma wallstreetcn_fetch_step:
  assumes "serves src WallStreetCNSource ''api''"
    and "src_endpoints src = JDict (eps1 @ (k, cfg) # eps2)"
    and "endpoints_loop e src eps1 w = (Inr its1, w1)"
    and "py_getitem cfg ''url'' = Inr u"
    and "py_get cfg ''params'' (JDict []) = Inr p"
    and "endpoints_loop e src eps2 w3 = (Inr its2, w4)"
  shows "endpoint_items e src k u p w1 = (Inr itsk, w3) \<Longrightarrow>
           source_fetch e src w = (Inr (Some (its1 @ itsk @ its2)), w4)"
    and "endpoint_items e src k u p w1 = (Inl er, w3) \<Longrightarrow>
           source_fetch e src w = (Inr (Some (its1 @ its2)), w4)"
proof -
  have sf: "source_fetch e src w = returned (endpoints_loop e src (eps1 @ (k, cfg) # eps2) w)"
    using assms(1,2) by (simp add: serves_def source_fetch_def wallstreetcn_fetch_api_def)
  {
    assume "endpoint_items e src k u p w1 = (Inr itsk, w3)"
    with assms(4,5,6) have "endpoints_loop e src ((k, cfg) # eps2) w1 = (Inr (itsk @ its2), w4)"
      by simp
    from endpoints_loop_append [OF assms(3) this] sf
    show "source_fetch e src w = (Inr (Some (its1 @ itsk @ its2)), w4)"
      by (simp add: returned_Inr)
  }
  {
    assume "endpoint_items e src k u p w1 = (Inl er, w3)"
    with assms(4,5,6) have "endpoints_loop e src ((k, cfg) # eps2) w1 = (Inr its2, w4)"
      by simp
    from endpoints_loop_append [OF assms(3) this] sf
    show "source_fetch e src w = (Inr (Some (its1 @ its2)), w4)"
      by (simp add: returned_Inr)
  }
qed

lemma endpoint_fetch_collect:
  assumes "fetch e u p w1 = (Inr data, w2)"
    and "lookup_path [''data'', ''items''] data = Some (JList rs)"
    and "k = ''live'' \<or> k = ''news'' \<or> k = ''hot''"
  shows "endpoint_items e src k u p w1 = collect (endpoint_record e k) e src rs w2"
  using assms(1) parse_endpoint_list [OF assms(2,3)] by (simp add: endpoint_items_def)







lemma returned_expected:
  assumes "sf = returned (collect f e src rs w1)"
    and "\<And>r. r \<in> set rs \<Longrightarrow> \<exists>u c. f r = Inr (if g r = [] then None else Some (JStr (g r), u, c))"
  shows "\<exists>its. sf = (Inr (Some its), w1\<lparr>clock_reads := clock_reads w1 + length its\<rparr>)
           \<and> map title its = map JStr (nonempty (map g rs)) \<and> stamped its"
proof -
  from collect_expected [of rs f g e src w1] assms(2) obtain its where
    c: "collect f e src rs w1 = (Inr its, w1\<lparr>clock_reads := clock_reads w1 + length its\<rparr>)"
    and t: "map title its = map JStr (nonempty (map g rs))" and s: "stamped its"
    by blast
  from c assms(1) have "sf = (Inr (Some its), w1\<lparr>clock_reads := clock_reads w1 + length its\<rparr>)"
    by (simp add: returned_Inr)
  with t s show ?thesis by blast
qed


lemma zhihu_fetch_expected:
  assumes "serves src ZhihuSource ''api''"
    and "fetch e (src_url src) JNull w = (Inr data, w1)"
    and "lookup_path [''data''] data = Some (JList rs)"
    and "list_all zhihu_expected rs"
  shows "\<exists>its. source_fetch e src w =
             (Inr (Some its), w1\<lparr>clock_reads := clock_reads w1 + length its\<rparr>)
           \<and> map title its = map JStr (nonempty (map (title_text zhihu_title_path) rs))
           \<and> stamped its"
proof (rule returned_expected [OF zhihu_fetch_collect [OF assms(1,2,3)]])
  fix r assume "r \<in> set rs"
  with assms(4) have "zhihu_expected r" by (simp add: list_all_iff)
  then show "\<exists>u c. zhihu_record r = Inr (if title_text zhihu_title_path r = [] then None
                                  else Some (JStr (title_text zhihu_title_path r), u, c))"
    by (rule zhihu_record_expected)
qed

lemma thepaper_fetch_expected:
  assumes "serves src ThePaperSource ''api''"
    and "fetch e (src_url src) JNull w = (Inr data, w1)"
    and "lookup_path [''data'', ''hotNews''] data = Some (JList rs)"
    and "list_all (flat_expected ''name'') rs"
  shows "\<exists>its. source_fetch e src w =
             (Inr (Some its), w1\<lparr>clock_reads := clock_reads w1 + length its\<rparr>)
           \<and> map title its = map JStr (nonempty (map (title_text [''name'']) rs))
           \<and> stamped its"
proof (rule returned_expected [OF thepaper_fetch_collect [OF assms(1,2,3)]])
  fix r assume "r \<in> set rs"
  with assms(4) have "flat_expected ''name'' r" by (simp add: list_all_iff)
  then show "\<exists>u c. thepaper_record e r = Inr (if title_text [''name''] r = [] then None
                                  else Some (JStr (title_text [''name''] r), u, c))"
    by (rule thepaper_record_expected)
qed

lemma sspai_fetch_expected:
  assumes "serves src SspaiSource ''api''"
    and "src_params src = JDict ps"
    and "fetch e (src_url src)
           (JDict (dict_set ''created_at'' (JInt (whole_seconds (clock e (clock_reads w)))) ps))
           (w\<lparr>clock_reads := Suc (clock_reads w)\<rparr>) = (Inr data, w1)"
    and "lookup_path [''data''] data = Some (JList rs)"
    and "list_all (flat_expected ''title'') rs"
  shows "\<exists>its. source_fetch e src w =
             (Inr (Some its), w1\<lparr>clock_reads := clock_reads w1 + length its\<rparr>)
           \<and> map title its = map JStr (nonempty (map (title_text [''title'']) rs))
           \<and> stamped its"
proof (rule returned_expected [OF sspai_fetch_collect [OF assms(1,2,3,4)]])
  fix r assume "r \<in> set rs"
  with assms(5) have "flat_expected ''title'' r" by (simp add: list_all_iff)
  then show "\<exists>u c. sspai_record r = Inr (if title_text [''title''] r = [] then None
                                  else Some (JStr (title_text [''title''] r), u, c))"
    by (rule sspai_record_expected)
qed

lemma wallstreetcn_fetch_expected:
  assumes "serves src WallStreetCNSource ''api''"
    and "src_endpoints src = JDict (eps1 @ (k, cfg) # eps2)"
    and "endpoints_loop e src eps1 w = (Inr its1, w0)"
    and "py_getitem cfg ''url'' = Inr u"
    and "py_get cfg ''params'' (JDict []) = Inr p"
    and "fetch e u p w0 = (Inr data, w1)"
    and "lookup_path [''data'', ''items''] data = Some (JList rs)"
    and "k = ''live'' \<or> k = ''news'' \<or> k = ''hot''"
    and "list_all (endpoint_expected e k) rs"
    and "endpoints_loop e src eps2
           (w1\<lparr>clock_reads := clock_reads w1 + length (nonempty (map (endpoint_title e k) rs))\<rparr>) =
           (Inr its2, w2)"
  shows "\<exists>its. source_fetch e src w = (Inr (Some (its1 @ its @ its2)), w2)
           \<and> map title its = map JStr (nonempty (map (endpoint_title e k) rs))
           \<and> stamped its"
proof -
  have "\<And>r. r \<in> set rs \<Longrightarrow> \<exists>u c. endpoint_record e k r =
      Inr (if endpoint_title e k r = [] then None else Some (JStr (endpoint_title e k r), u, c))"
  proof -
    fix r assume "r \<in> set rs"
    with assms(9) have "endpoint_expected e k r" by (simp add: list_all_iff)
    then show "\<exists>u c. endpoint_record e k r =
        Inr (if endpoint_title e k r = [] then None else Some (JStr (endpoint_title e k r), u, c))"
      by (rule endpoint_record_expected)
  qed
  from collect_expected [of rs "endpoint_record e k" "endpoint_title e k" e src w1] this
  obtain its where
    c: "collect (endpoint_record e k) e src rs w1 =
          (Inr its, w1\<lparr>clock_reads := clock_reads w1 + length its\<rparr>)"
    and t: "map title its = map JStr (nonempty (map (endpoint_title e k) rs))" and s: "stamped its"
    by blast
  from t have "length its = length (nonempty (map (endpoint_title e k) rs))"
    by (metis length_map)
  with c endpoint_fetch_collect [OF assms(6,7,8)]
  have "endpoint_items e src k u p w0 =
      (Inr its, w1\<lparr>clock_reads := clock_reads w1 + length (nonempty (map (endpoint_title e k) rs))\<rparr>)"
    by simp
  from wallstreetcn_fetch_step(1) [OF assms(1,2,3,4,5,10) this] t s show ?thesis by blast
qed


text \<open>
  Claim C2, as the code has it. For each API source and every response whose record
  array holds only records of the expected shape, \<^verbatim>\<open>fetch()\<close> returns exactly one item
  per well-formed record, in the order of the records, with that record's title (a
  string that is not empty) and with its timestamp set, and reads the clock once per
  item. For Zhihu, ThePaper and Sspai the response is what the source's one Transport
  call returned; for WallStreetCN it is the response of one of the endpoints
  \<^verbatim>\<open>live\<close>, \<^verbatim>\<open>news\<close> and \<^verbatim>\<open>hot\<close>, and its items stand between those of the endpoints
  before it and those of the endpoints after it.
\<close>

theorem fetch_returns_titled_records:
  "(serves src ZhihuSource ''api'' \<and> fetch e (src_url src) JNull w = (Inr data, w1) \<and>
      lookup_path [''data''] data = Some (JList rs) \<and> list_all zhihu_expected rs \<longrightarrow>
      (\<exists>its. source_fetch e src w =
                (Inr (Some its), w1\<lparr>clock_reads := clock_reads w1 + length its\<rparr>)
         \<and> map title its = map JStr (nonempty (map (title_text zhihu_title_path) rs))
         \<and> stamped its))
   \<and> (serves src ThePaperSource ''api'' \<and> fetch e (src_url src) JNull w = (Inr data, w1) \<and>
      lookup_path [''data'', ''hotNews''] data = Some (JList rs) \<and>
      list_all (flat_expected ''name'') rs \<longrightarrow>
      (\<exists>its. source_fetch e src w =
                (Inr (Some its), w1\<lparr>clock_reads := clock_reads w1 + length its\<rparr>)
         \<and> map title its = map JStr (nonempty (map (title_text [''name'']) rs))
         \<and> stamped its))
   \<and> (serves src SspaiSource ''api'' \<and> src_params src = JDict ps \<and>
      fetch e (src_url src)
        (JDict (dict_set ''created_at'' (JInt (whole_seconds (clock e (clock_reads w)))) ps))
        (w\<lparr>clock_reads := Suc (clock_reads w)\<rparr>) = (Inr data, w1) \<and>
      lookup_path [''data''] data = Some (JList rs) \<and>
      list_all (flat_expected ''title'') rs \<longrightarrow>
      (\<exists>its. source_fetch e src w =
                (Inr (Some its), w1\<lparr>clock_reads := clock_reads w1 + length its\<rparr>)
         \<and> map title its = map JStr (nonempty (map (title_text [''title'']) rs))
         \<and> stamped its))
   \<and> (serves src WallStreetCNSource ''api'' \<and>
      src_endpoints src = JDict (eps1 @ (k, cfg) # eps2) \<and>
      endpoints_loop e src eps1 w = (Inr its1, w0) \<and>
      py_getitem cfg ''url'' = Inr u \<and> py_get cfg ''params'' (JDict []) = Inr p \<and>
      fetch e u p w0 = (Inr data, w1) \<and>
      lookup_path [''data'', ''items''] data = Some (JList rs) \<and>
      (k = ''live'' \<or> k = ''news'' \<or> k = ''hot'') \<and>
      list_all (endpoint_expected e k) rs \<and>
      endpoints_loop e src eps2
        (w1\<lparr>clock_reads := clock_reads w1 + length (nonempty (map (endpoint_title e k) rs))\<rparr>) =
        (Inr its2, w2) \<longrightarrow>
      (\<exists>its. source_fetch e src w = (Inr (Some (its1 @ its @ its2)), w2)
         \<and> map title its = map JStr (nonempty (map (endpoint_title e k) rs))
         \<and> stamped its))"
  apply (intro conjI impI)
  subgoal by (elim conjE) (rule zhihu_fetch_expected)
  subgoal by (elim conjE) (rule thepaper_fetch_expected)
  subgoal by (elim conjE) (rule sspai_fetch_expected)
  subgoal by (elim conjE) (rule wallstreetcn_fetch_expected)
  done













section \<open>Concrete runs\<close>

lemmas run_defs = scripted_env_def idle_world_def demo_source_def ok_response_def page_response_def
  fetch_def numeral_3_eq_3 fetch_attempt_def http_get_def is_error_status_def
  ebind_def now_def make_item_def returned_def whole_seconds_def

text \<open>
  A response of the \<^verbatim>\<open>news\<close> endpoint of WallStreetCN with one well-formed record
  and a record that is a number: the number raises inside \<^verbatim>\<open>_parse_endpoint\<close>, the
  handler around the endpoint swallows the error, and \<^verbatim>\<open>fetch()\<close> returns the empty
  list, without the item of the well-formed record. Two more runs show what the
  expected shape is for: a Zhihu record with a title and an \<^verbatim>\<open>excerpt_area\<close> that is
  \<^verbatim>\<open>null\<close> makes \<^verbatim>\<open>fetch()\<close> raise, and an Sspai record whose title is the number 5
  yields an item with that number as its title.
\<close>

theorem wellformed_record_not_returned:
  "fst (source_fetch (scripted_env (\<lambda>i. ok_response news_bad_data) []) ws_news_source idle_world) =
     Inr (Some [])
   \<and> nonempty (map (title_text [''article'', ''title''])
        (records_at [''data'', ''items''] news_bad_data)) = [''N'']"
  by (simp add: source_fetch_def wallstreetcn_fetch_api_def ws_news_source_def endpoint_items_def
      parse_endpoint_def article_record_def news_bad_data_def records_at_def nonempty_def
      title_text_def run_defs)

lemma zhihu_null_excerpt_raises:
  "fst (source_fetch (scripted_env (\<lambda>i. ok_response zhihu_null_excerpt) [])
          (demo_source ZhihuSource ''api'' (JBool True)) idle_world) = Inl AttributeError"
  by (simp add: source_fetch_def zhihu_fetch_api_def zhihu_parse_def zhihu_null_excerpt_def
      zhihu_record_def run_defs)

lemma numeric_title_kept:
  "map title (case fst (source_fetch (scripted_env (\<lambda>i. ok_response sspai_numeric_title) [])
          ((demo_source SspaiSource ''api'' (JBool True))\<lparr>src_params := JDict []\<rparr>) idle_world) of
        Inr (Some its) \<Rightarrow> its | _ \<Rightarrow> []) = [JInt 5]"
  by (simp add: source_fetch_def sspai_fetch_api_def sspai_parse_def sspai_numeric_title_def
      sspai_record_def run_defs)

theorem fetch_returns_titled_records_witness:
  "(\<exists>its. source_fetch (scripted_env (\<lambda>i. ok_response zhihu_demo_data) [])
            (demo_source ZhihuSource ''api'' (JBool True)) idle_world =
          (Inr (Some its),
           \<lparr>http_log = [(JStr ''u'', JNull)], transport_calls = 1, clock_reads = length its\<rparr>)
        \<and> map title its = [JStr ''A''] \<and> stamped its)
   \<and> (\<exists>its. source_fetch (scripted_env (\<lambda>i. ok_response news_demo_data) []) ws_demo_source
            idle_world =
          (Inr (Some its),
           \<lparr>http_log = [(JStr ''l'', JDict []), (JStr ''n'', JDict [])], transport_calls = 2,
              clock_reads = 1\<rparr>)
        \<and> map title its = [JStr ''N''] \<and> stamped its)"
proof (intro conjI)
  show "\<exists>its. source_fetch (scripted_env (\<lambda>i. ok_response zhihu_demo_data) [])
            (demo_source ZhihuSource ''api'' (JBool True)) idle_world =
          (Inr (Some its),
           \<lparr>http_log = [(JStr ''u'', JNull)], transport_calls = 1, clock_reads = length its\<rparr>)
        \<and> map title its = [JStr ''A''] \<and> stamped its"
    using fetch_returns_titled_records [
      where src = "demo_source ZhihuSource ''api'' (JBool True)"
        and e = "scripted_env (\<lambda>i. ok_response zhihu_demo_data) []"
        and w = idle_world and data = zhihu_demo_data
        and ?w1.0 = "\<lparr>http_log = [(JStr ''u'', JNull)], transport_calls = 1, clock_reads = 0\<rparr>"
        and rs = "[JDict [(''target'', JDict [(''title_area'', JDict [(''text'', JStr ''A'')]),
                                   (''url'', JStr ''http://x'')])],
        JDict []]", THEN conjunct1]
    by (simp add: serves_def zhihu_demo_data_def zhihu_expected_def zhihu_shaped_def
      dict_if_present_def text_or_null_def zhihu_title_path_def title_text_def nonempty_def
      run_defs)
next
  show "\<exists>its. source_fetch (scripted_env (\<lambda>i. ok_response news_demo_data) []) ws_demo_source
            idle_world =
          (Inr (Some its),
           \<lparr>http_log = [(JStr ''l'', JDict []), (JStr ''n'', JDict [])], transport_calls = 2,
              clock_reads = 1\<rparr>)
        \<and> map title its = [JStr ''N''] \<and> stamped its"
    using fetch_returns_titled_records [
      where src = ws_demo_source
        and e = "scripted_env (\<lambda>i. ok_response news_demo_data) []"
        and w = idle_world and data = news_demo_data
        and ?eps1.0 = "[(''live'', JDict [(''url'', JStr ''l'')])]"
        and k = "''news''" and cfg = "JDict [(''url'', JStr ''n'')]" and ?eps2.0 = "[]"
        and ?its1.0 = "[]" and u = "JStr ''n''" and p = "JDict []" and ?its2.0 = "[]"
        and ?w0.0 = "\<lparr>http_log = [(JStr ''l'', JDict [])], transport_calls = 1, clock_reads = 0\<rparr>"
        and ?w1.0 = "\<lparr>http_log = [(JStr ''l'', JDict []), (JStr ''n'', JDict [])],
                       transport_calls = 2, clock_reads = 0\<rparr>"
        and ?w2.0 = "\<lparr>http_log = [(JStr ''l'', JDict []), (JStr ''n'', JDict [])],
                       transport_calls = 2, clock_reads = 1\<rparr>"
        and rs = "[JDict [(''article'', JDict [(''title'', JStr ''N''), (''uri'', JStr ''http://n'')])]]",
        THEN conjunct2, THEN conjunct2, THEN conjunct2]
    by (simp add: serves_def ws_demo_source_def news_demo_data_def endpoint_expected_def
      article_expected_def text_or_null_def endpoint_title_def title_text_def nonempty_def
      endpoint_items_def parse_endpoint_def live_record_def run_defs)
qed



lemma sspai_demo_run:
  "\<exists>its w'. sspai_parse (scripted_env flaky []) (demo_source SspaiSource ''api'' (JBool True))
       sspai_demo_data idle_world = (Inr its, w')"
  by (simp add: sspai_parse_def sspai_demo_data_def sspai_record_def run_defs)

theorem sspai_url_is_record_id_witness:
  "\<exists>its w'. sspai_parse (scripted_env flaky []) (demo_source SspaiSource ''api'' (JBool True))
       sspai_demo_data idle_world = (Inr its, w') \<and> map url its = [JInt 7, JStr []]"
proof -
  from sspai_demo_run obtain its w' where
    run: "sspai_parse (scripted_env flaky []) (demo_source SspaiSource ''api'' (JBool True))
       sspai_demo_data idle_world = (Inr its, w')" by blast
  from sspai_url_is_record_id [OF run] have "map url its = [JInt 7, JStr []]"
    by (simp add: sspai_demo_data_def records_at_def titled_def empty_value_def value_or_def)
  then show ?thesis using run by (intro exI conjI)
qed

theorem endpoint_failure_is_isolated_witness:
  "wallstreetcn_fetch_api (scripted_env outage []) ws_demo_source idle_world =
     (Inr [\<lparr>title = JStr ''N'', url = JStr ''http://n'', platform = ''p'',
            platform_icon = JStr ''i'', raw_category = JStr ''c'', content = JStr [],
            timestamp = Some 0\<rparr>],
      \<lparr>http_log = [(JStr ''l'', JDict []), (JStr ''l'', JDict []), (JStr ''l'', JDict []),
                   (JStr ''n'', JDict [])],
       transport_calls = 2, clock_reads = 1\<rparr>)"
proof -
  let ?e = "scripted_env outage []"
  let ?w2 = "\<lparr>http_log = [(JStr ''l'', JDict []), (JStr ''l'', JDict []), (JStr ''l'', JDict [])],
       transport_calls = 1, clock_reads = 0\<rparr>"
  have endpoints: "src_endpoints ws_demo_source =
      JDict ([] @ (''live'', JDict [(''url'', JStr ''l'')]) # [(''news'', JDict [(''url'', JStr ''n'')])])"
    by (simp add: ws_demo_source_def)
  have before: "endpoints_loop ?e ws_demo_source [] idle_world = (Inr [], idle_world)"
    by simp
  have url: "py_getitem (JDict [(''url'', JStr ''l'')]) ''url'' = Inr (JStr ''l'')"
    by simp
  have params: "py_get (JDict [(''url'', JStr ''l'')]) ''params'' (JDict []) = Inr (JDict [])"
    by simp
  have fails: "fetch ?e (JStr ''l'') (JDict []) idle_world = (Inl RetryError, ?w2)"
    by (simp add: outage_def run_defs)
  have after: "endpoints_loop ?e ws_demo_source [(''news'', JDict [(''url'', JStr ''n'')])] ?w2 =
     (Inr [\<lparr>title = JStr ''N'', url = JStr ''http://n'', platform = ''p'',
            platform_icon = JStr ''i'', raw_category = JStr ''c'', content = JStr [],
            timestamp = Some 0\<rparr>],
      \<lparr>http_log = [(JStr ''l'', JDict []), (JStr ''l'', JDict []), (JStr ''l'', JDict []),
                   (JStr ''n'', JDict [])],
       transport_calls = 2, clock_reads = 1\<rparr>)"
    by (simp add: endpoint_items_def parse_endpoint_def article_record_def news_demo_data_def
        outage_def ws_demo_source_def run_defs)
  from endpoint_failure_is_isolated [OF endpoints before url params fails after]
  show ?thesis by simp
qed

theorem source_failure_is_isolated_witness:
  "\<exists>its w'. fetch_all_news (scripted_env (\<lambda>i. ok_response sspai_demo_data) []) demo_config
       idle_world = (Inr its, w') \<and> map title its = [JStr ''T'', JStr ''U'']"
proof -
  let ?e = "scripted_env (\<lambda>i. ok_response sspai_demo_data) []"
  let ?ps = "[(''zhihu'', JDict [(''name'', JStr ''n'')]),
              (''sspai'', platform_config ''api'' (JBool True))]"
  have platforms: "py_getitem demo_config ''platforms'' = Inr (JDict ?ps)"
    by (simp add: demo_config_def)
  have dicts: "list_all is_dict (map snd ?ps)"
    by (simp add: platform_config_def)
  have fails: "run_source ?e ZhihuSource (JDict [(''name'', JStr ''n'')]) idle_world =
      (Inl KeyError, idle_world)"
    by (simp add: run_source_def base_init_def ebind_def)
  have known: "SOURCE_MAP ''zhihu'' = Some ZhihuSource"
    by (simp add: SOURCE_MAP_def)
  have pre: "?ps = [] @ (''zhihu'', JDict [(''name'', JStr ''n'')]) #
        [(''sspai'', platform_config ''api'' (JBool True))] \<and>
      platforms_loop ?e [] idle_world = (Inr [], idle_world) \<and>
      py_get (JDict [(''name'', JStr ''n'')]) ''enabled'' (JBool True) = Inr (JBool True) \<and>
      truthy (JBool True) \<and> SOURCE_MAP ''zhihu'' = Some ZhihuSource \<and>
      run_source ?e ZhihuSource (JDict [(''name'', JStr ''n'')]) idle_world =
        (Inl KeyError, idle_world)"
    using fails known by simp
  from source_failure_is_isolated [OF platforms dicts, of ?e idle_world] pre
  obtain its2 w3 where
    rest: "platforms_loop ?e [(''sspai'', platform_config ''api'' (JBool True))] idle_world =
        (Inr its2, w3)"
    and all: "fetch_all_news ?e demo_config idle_world = (Inr ([] @ its2), w3)"
    by blast
  have "platforms_loop ?e [(''sspai'', platform_config ''api'' (JBool True))] idle_world =
      (Inr [\<lparr>title = JStr ''T'', url = JInt 7, platform = ''sspai'',
             platform_icon = JStr ''i'', raw_category = JStr ''c'', content = JStr [],
             timestamp = Some 1\<rparr>,
            \<lparr>title = JStr ''U'', url = JStr [], platform = ''sspai'',
             platform_icon = JStr ''i'', raw_category = JStr ''c'', content = JStr [],
             timestamp = Some 2\<rparr>],
       \<lparr>http_log = [(JStr ''u'', JDict [(''created_at'', JInt 0)])],
        transport_calls = 1, clock_reads = 3\<rparr>)"
    by (simp add: run_source_def base_init_def with_url_def platform_config_def source_fetch_def sspai_fetch_api_def sspai_parse_def sspai_record_def sspai_demo_data_def SOURCE_MAP_def run_defs)
  with rest have "map title its2 = [JStr ''T'', JStr ''U'']"
    by auto
  with all show ?thesis by simp
qed

text \<open>
  Claim C6. Hupu and GitHub put their origin before an href that does not start with
  \<^verbatim>\<open>http\<close>, and ProductHunt before every href; Hacker News stores the href as it
  stands. A row of a Hacker News page whose link is relative (\<^verbatim>\<open>item?id=1\<close>, as a
  self post has it) yields an item whose url is that relative link, while the same
  anchor on a Hupu page yields a url that starts with Hupu's origin.
\<close>

theorem hackernews_relative_href_not_rewritten:
  "fst (source_fetch (scripted_env (\<lambda>i. page_response ''<html>'') [Some ask_hn])
          (demo_source HackerNewsSource ''html'' (JBool True)) idle_world) =
     Inr (Some [\<lparr>title = JStr ''Ask HN'', url = JStr ''item?id=1'', platform = ''p'',
            platform_icon = JStr ''i'', raw_category = JStr ''c'', content = JStr [],
            timestamp = Some 0\<rparr>])"
  by (simp add: source_fetch_def hackernews_fetch_html_def hackernews_record_def ask_hn_def
      tag_text_def tag_get_def py_strip_def is_space_def run_defs)

lemma hupu_relative_href_rewritten:
  "fst (source_fetch (scripted_env (\<lambda>i. page_response ''<html>'') [Some ask_hn])
          (demo_source HupuSource ''html'' (JBool True)) idle_world) =
     Inr (Some [\<lparr>title = JStr ''Ask HN'', url = JStr ''https://bbs.hupu.comitem?id=1'', platform = ''p'',
            platform_icon = JStr ''i'', raw_category = JStr ''c'', content = JStr [],
            timestamp = Some 0\<rparr>])"
  by (simp add: source_fetch_def hupu_fetch_html_def hupu_record_def ask_hn_def startswith_def
      tag_text_def tag_get_def py_strip_def is_space_def run_defs)

lemma hupu_record_url:
  "hupu_record (Some a) = Inr (Some (t, u, c)) \<Longrightarrow>
     (tag_get a ''href'' [] \<noteq> [] \<and> \<not> startswith (tag_get a ''href'' []) ''http''
        \<longrightarrow> u = JStr (''https://bbs.hupu.com'' @ tag_get a ''href'' []))
     \<and> (startswith (tag_get a ''href'' []) ''http'' \<longrightarrow> u = JStr (tag_get a ''href'' []))"
  by (auto simp: hupu_record_def Let_def split: if_splits)

lemma github_record_url:
  "github_record (Some a) = Inr (Some (t, u, c)) \<Longrightarrow>
     (tag_get a ''href'' [] \<noteq> [] \<and> \<not> startswith (tag_get a ''href'' []) ''http''
        \<longrightarrow> u = JStr (''https://github.com'' @ tag_get a ''href'' []))
     \<and> (startswith (tag_get a ''href'' []) ''http'' \<longrightarrow> u = JStr (tag_get a ''href'' []))"
  by (auto simp: github_record_def Let_def split: if_splits)

lemma hackernews_record_url:
  "hackernews_record (Some a) = Inr (Some (t, u, c)) \<Longrightarrow> u = JStr (tag_get a ''href'' [])"
  by (auto simp: hackernews_record_def split: if_splits)


section \<open>Text Sanitizer: idempotence\<close>

lemma dropWhile_head: "dropWhile P xs = [] \<or> \<not> P (hd (dropWhile P xs))"
  by (metis hd_dropWhile)

lemma re_sub_ws_hd_nonspace:
  "xs = [] \<or> \<not> is_space (hd xs) \<Longrightarrow> re_sub_ws xs = [] \<or> \<not> is_space (hd (re_sub_ws xs))"
  by (cases xs) auto

lemma collapsed_Cons:
  "collapsed (c # cs) =
     ((\<not> is_space c \<or> (c = CHR 0x20 \<and> (cs = [] \<or> \<not> is_space (hd cs)))) \<and> collapsed cs)"
  by (cases cs) auto

lemma collapsed_re_sub_ws: "collapsed (re_sub_ws t)"
proof (induction t rule: re_sub_ws.induct)
  case 1
  then show ?case by simp
next
  case (2 c cs)
  show ?case
  proof (cases "is_space c")
    case True
    have "re_sub_ws (dropWhile is_space cs) = [] \<or>
        \<not> is_space (hd (re_sub_ws (dropWhile is_space cs)))"
      using re_sub_ws_hd_nonspace dropWhile_head by blast
    with True 2 show ?thesis by (simp add: collapsed_Cons)
  next
    case False
    with 2 show ?thesis by (simp add: collapsed_Cons)
  qed
qed

lemma re_sub_ws_collapsed: "collapsed t \<Longrightarrow> re_sub_ws t = t"
proof (induction t rule: re_sub_ws.induct)
  case 1
  then show ?case by simp
next
  case (2 c cs)
  show ?case
  proof (cases "is_space c")
    case True
    from "2.prems" True have c: "c = CHR 0x20" and h: "cs = [] \<or> \<not> is_space (hd cs)"
      and cc: "collapsed cs"
      by (auto simp: collapsed_Cons)
    from h have d: "dropWhile is_space cs = cs" by (cases cs) auto
    from "2.IH"(1) [OF True] d cc have "re_sub_ws cs = cs" by simp
    with True c d show ?thesis by simp
  next
    case False
    with 2 show ?thesis by (simp add: collapsed_Cons)
  qed
qed

lemma collapsed_append_right: "collapsed (xs @ ys) \<Longrightarrow> collapsed ys"
  by (induction xs) (auto simp: collapsed_Cons)

lemma collapsed_append_left: "collapsed (xs @ ys) \<Longrightarrow> collapsed xs"
proof (induction xs)
  case Nil
  then show ?case by simp
next
  case (Cons a xs)
  then show ?case by (cases xs) (auto simp: collapsed_Cons)
qed

lemma rev_split: "d = rev (dropWhile P (rev d)) @ rev (takeWhile P (rev d))"
proof -
  have "rev (takeWhile P (rev d) @ dropWhile P (rev d)) = rev (rev d)"
    by (simp only: takeWhile_dropWhile_id)
  then have "rev (dropWhile P (rev d)) @ rev (takeWhile P (rev d)) = d"
    by (simp only: rev_append rev_rev_ident)
  then show ?thesis by (rule sym)
qed

lemma py_strip_middle: "\<exists>a b. s = a @ py_strip s @ b"
proof -
  let ?d = "dropWhile is_space s"
  have 1: "s = takeWhile is_space s @ ?d" by simp
  have "?d = rev (dropWhile is_space (rev ?d)) @ rev (takeWhile is_space (rev ?d))"
    by (rule rev_split)
  then have 2: "?d = py_strip s @ rev (takeWhile is_space (rev ?d))"
    by (simp only: py_strip_def)
  from 1 2 have "s = takeWhile is_space s @ py_strip s @ rev (takeWhile is_space (rev ?d))"
    by simp
  then show ?thesis by blast
qed

lemma collapsed_py_strip:
  assumes "collapsed s"
  shows "collapsed (py_strip s)"
proof -
  from py_strip_middle [of s] obtain a b where s: "s = a @ py_strip s @ b" by blast
  with assms have "collapsed (a @ py_strip s @ b)" by simp
  then have "collapsed (py_strip s @ b)" by (rule collapsed_append_right)
  then show ?thesis by (rule collapsed_append_left)
qed

lemma py_strip_idem: "py_strip (py_strip s) = py_strip s"
proof -
  define d where "d = dropWhile is_space s"
  define u where "u = rev (dropWhile is_space (rev d))"
  have su: "py_strip s = u" by (simp add: py_strip_def u_def d_def)
  have "d = rev (dropWhile is_space (rev d)) @ rev (takeWhile is_space (rev d))"
    by (rule rev_split)
  then have du: "d = u @ rev (takeWhile is_space (rev d))" by (simp only: u_def)
  have dh: "d = [] \<or> \<not> is_space (hd d)" unfolding d_def by (rule dropWhile_head)
  have keep: "dropWhile is_space u = u"
  proof (cases u)
    case Nil
    then show ?thesis by simp
  next
    case (Cons a as)
    with du have "hd d = a" and "d \<noteq> []" by (cases d; simp)+
    with dh have "\<not> is_space a" by simp
    with Cons show ?thesis by simp
  qed
  have "rev u = dropWhile is_space (rev d)" by (simp add: u_def)
  then have "dropWhile is_space (rev u) = rev u" by simp
  with keep have "py_strip u = u" by (simp add: py_strip_def)
  with su show ?thesis by simp
qed

lemma normalise_idem: "py_strip (re_sub_ws (py_strip (re_sub_ws t))) = py_strip (re_sub_ws t)"
  by (simp add: re_sub_ws_collapsed collapsed_py_strip collapsed_re_sub_ws py_strip_idem)

text \<open>
  Claim C8, as the code has it. \<^verbatim>\<open>strip_html\<close> parses its argument each time it is
  called, so a second pass reads as markup what the first pass decoded. Where the
  parser returns the sanitized text unchanged (nothing in it is a tag or a character
  reference), the second pass changes nothing: the whitespace normalisation around
  the parser is idempotent (\<open>normalise_idem\<close>).
\<close>

theorem sanitizer_idempotent_on_plain_text:
  assumes first: "strip_html e (JStr x) = Inr y"
    and plain: "soup_text e (JStr y) = Inr y"
  shows "strip_html e (JStr y) = Inr y"
proof (cases "y = []")
  case True
  then show ?thesis by (simp add: strip_html_def)
next
  case False
  with first have "x \<noteq> []" by (auto simp: strip_html_def)
  with first obtain t where "soup_text e (JStr x) = Inr t" and y: "y = py_strip (re_sub_ws t)"
    by (cases "soup_text e (JStr x)") (auto simp: strip_html_def ebind_def)
  from False plain have "strip_html e (JStr y) = Inr (py_strip (re_sub_ws y))"
    by (simp add: strip_html_def ebind_def)
  also have "py_strip (re_sub_ws y) = y" unfolding y by (rule normalise_idem)
  finally show ?thesis .
qed

lemma sanitize_entities:
  "strip_html (scripted_env flaky []) (JStr ''&lt;b&gt;hi&lt;/b&gt;'') = Inr ''<b>hi</b>''"
  by (simp add: strip_html_def scripted_env_def markup_soup_def markup_get_text_def
      py_strip_def is_space_def ebind_def)

lemma sanitize_tags:
  "strip_html (scripted_env flaky []) (JStr ''<b>hi</b>'') = Inr ''hi''"
  by (simp add: strip_html_def scripted_env_def markup_soup_def markup_get_text_def
      py_strip_def is_space_def ebind_def)

text \<open>
  The input \<^verbatim>\<open>&lt;b&gt;hi&lt;/b&gt;\<close>: the first pass decodes the character references
  and returns \<^verbatim>\<open><b>hi</b>\<close>, the second pass removes the tags and returns
  \<^verbatim>\<open>hi\<close>.
\<close>

theorem sanitizer_not_idempotent:
  "strip_html (scripted_env flaky []) (JStr ''&lt;b&gt;hi&lt;/b&gt;'') = Inr ''<b>hi</b>'' \<and>
   strip_html (scripted_env flaky []) (JStr ''<b>hi</b>'') = Inr ''hi'' \<and>
   ''hi'' \<noteq> ''<b>hi</b>''"
  using sanitize_entities sanitize_tags by simp

lemma sanitize_paragraph:
  "strip_html (scripted_env flaky []) (JStr ''<p>a   b</p>'') = Inr ''a b''"
  by (simp add: strip_html_def scripted_env_def markup_soup_def markup_get_text_def
      py_strip_def is_space_def ebind_def)

lemma soup_plain:
  "soup_text (scripted_env flaky []) (JStr ''a b'') = Inr ''a b''"
  by (simp add: scripted_env_def markup_soup_def markup_get_text_def py_strip_def is_space_def)

theorem sanitizer_idempotent_on_plain_text_witness:
  "strip_html (scripted_env flaky []) (JStr ''<p>a   b</p>'') = Inr ''a b'' \<and>
   strip_html (scripted_env flaky []) (JStr ''a b'') = Inr ''a b''"
  using sanitize_paragraph sanitizer_idempotent_on_plain_text [OF sanitize_paragraph soup_plain]
  by simp

end
